theory Spec2Isabelle
  imports Main
begin

section \<open>Exceptions\<close>

text \<open>
  The error numbers the module raises (\<^verbatim>\<open>errno.EPERM\<close>, ...), plus \<^verbatim>\<open>EINVAL\<close>, which
  the scratch file raises by itself on a negative position or size.
\<close>

datatype errno = EPERM | ENOENT | EACCES | EOPNOTSUPP | ETIMEDOUT | EINVAL

text \<open>
  Python exceptions as values. \<open>ClientError code status\<close> is botocore's
  \<^verbatim>\<open>ClientError\<close> with the two entries of \<^verbatim>\<open>e.response\<close> the module reads:
  \<^verbatim>\<open>response['Error']['Code']\<close> and \<^verbatim>\<open>response['ResponseMetadata']['HTTPStatusCode']\<close>,
  each \<open>None\<close> when the key is missing. \<open>IOError n p\<close> is
  \<^verbatim>\<open>IOError(n, os.strerror(n), p)\<close>; the file name \<open>p\<close> is \<open>None\<close> for errors the
  scratch file raises. \<open>IOError_msg\<close> is the one-argument form \<^verbatim>\<open>IOError('...')\<close>.
\<close>

datatype exn =
    ClientError "string option" "int option"
  | SSLError
  | EndpointConnectionError
  | IOError errno "string option"
  | IOError_msg string
  | ValueError string
  | UnsupportedOperation string
  | AttributeError string
  | OverflowError string
  | OtherException string

section \<open>Error translation: \<^verbatim>\<open>s3errors\<close>\<close>

text \<open>
  \<^verbatim>\<open>s3errors(path)\<close> is a context manager: an exception raised in its body is either
  replaced by an \<^verbatim>\<open>IOError\<close> (the three \<^verbatim>\<open>except\<close> clauses) or propagates as it is.
  The function below gives the exception that leaves the \<^verbatim>\<open>with\<close> block for the
  exception raised inside it. The \<^verbatim>\<open>if\<close> chain keeps the order of the source.
\<close>

fun s3errors :: "string \<Rightarrow> exn \<Rightarrow> exn" where
  "s3errors path (ClientError error_code status) =
     (let http_status = (case status of None \<Rightarrow> 200 | Some s \<Rightarrow> s) in
      if error_code = Some ''NoSuchBucket'' then IOError EPERM (Some path)
      else if http_status = 404 then IOError ENOENT (Some path)
      else if http_status = 403 then IOError EACCES (Some path)
      else IOError EOPNOTSUPP (Some path))"
| "s3errors path SSLError = IOError EOPNOTSUPP (Some path)"
| "s3errors path EndpointConnectionError = IOError ETIMEDOUT (Some path)"
| "s3errors path e = e"

text \<open>
  The specification names failures by kind. An \<^verbatim>\<open>IOError\<close> built with an error number is
  the Python exception class of that number (\<^verbatim>\<open>EPERM\<close> and \<^verbatim>\<open>EACCES\<close>: PermissionError,
  \<^verbatim>\<open>ENOENT\<close>: FileNotFoundError, \<^verbatim>\<open>ETIMEDOUT\<close>: TimeoutError); \<^verbatim>\<open>EOPNOTSUPP\<close> is the
  "operation not supported" error. The two message-only errors are the capability
  violations, and the scratch file's rejection of a mode token is the invalid-mode
  failure.
\<close>

datatype failure_kind =
  InvalidMode | NotReadable | NotWritable | NotFound | PermissionDenied | TimedOut | Unsupported

definition invalid_mode_msg :: string where
  "invalid_mode_msg = ''invalid mode''"

definition closed_file_msg :: string where
  "closed_file_msg = ''I/O operation on closed file''"

fun kind_of :: "exn \<Rightarrow> failure_kind option" where
  "kind_of (IOError EPERM p) = Some PermissionDenied"
| "kind_of (IOError EACCES p) = Some PermissionDenied"
| "kind_of (IOError ENOENT p) = Some NotFound"
| "kind_of (IOError ETIMEDOUT p) = Some TimedOut"
| "kind_of (IOError EOPNOTSUPP p) = Some Unsupported"
| "kind_of (IOError_msg m) =
     (if m = ''not open for reading'' then Some NotReadable
      else if m = ''not open for writing'' then Some NotWritable
      else None)"
| "kind_of (ValueError m) = (if m = invalid_mode_msg then Some InvalidMode else None)"
| "kind_of e = None"

fun path_of :: "exn \<Rightarrow> string option" where
  "path_of (IOError n p) = p"
| "path_of e = None"

section \<open>The scratch file: \<^verbatim>\<open>tempfile.TemporaryFile\<close>\<close>

text \<open>
  The scratch file belongs to the Python library, not to the repository. It is modelled
  as CPython 3 behaves on POSIX: a sequence of units with a cursor, opened on a fresh
  descriptor, so that a write lands at the cursor (the descriptor is not opened with
  \<^verbatim>\<open>O_APPEND\<close>, whatever the mode token); a gap left by a seek or a truncate beyond the
  end reads as NUL units. The mode token decides whether the file object reads, writes
  and is binary.

  A binary file object (\<open>tf_binary\<close>) is modelled unit for unit. A text file object is
  a decoder on top of a binary one, and the model keeps of it what the statements below
  need: reading translates the line terminators CR LF and CR to LF (universal
  newlines; writing translates nothing on POSIX), a seek relative to the cursor or to
  the end takes the offset 0 only, and there is no \<^verbatim>\<open>readinto\<close>. The following is
  \<^emph>\<open>not\<close> modelled for a text file object, and no statement below relies on the model
  there: the encoding (positions and sizes are offsets in the UTF-8 encoding, so they
  are counts of units only while the content is ASCII, and a content cut inside a
  character fails to decode); the opaque value of \<^verbatim>\<open>tell\<close> in the middle of a line
  terminator, and its refusal after \<^verbatim>\<open>readlines\<close> stopped early; and the read-ahead of
  the decoder, because of which a write that follows a read without a seek in between
  lands where the read-ahead stopped and not at the cursor. The type of the payload
  (text or bytes) is not modelled either: a payload is a list of units that the file
  accepts. The text of an error message stands for the kind of the error: the two
  file objects word the same refusal differently.
\<close>

record tempfile =
  content :: string
  pos :: nat
  tf_closed :: bool
  tf_readable :: bool
  tf_writable :: bool
  tf_binary :: bool

text \<open>
  The mode check of \<^verbatim>\<open>io.open\<close>, in its order: unknown or repeated characters; text
  together with binary; more than one, then none, of create, read, write, append.
\<close>

definition TemporaryFile :: "string \<Rightarrow> exn + tempfile" where
  "TemporaryFile m =
     (let creating = (CHR ''x'' \<in> set m);
          reading = (CHR ''r'' \<in> set m);
          writing = (CHR ''w'' \<in> set m);
          appending = (CHR ''a'' \<in> set m);
          updating = (CHR ''+'' \<in> set m);
          text = (CHR ''t'' \<in> set m);
          binary = (CHR ''b'' \<in> set m)
      in
      if \<not> set m \<subseteq> set ''axrwb+t'' \<or> length m > length (remdups m)
        then Inl (ValueError invalid_mode_msg)
      else if text \<and> binary then Inl (ValueError invalid_mode_msg)
      else if (of_bool creating + of_bool reading + of_bool writing + of_bool appending :: nat) > 1
        then Inl (ValueError invalid_mode_msg)
      else if \<not> (creating \<or> reading \<or> writing \<or> appending)
        then Inl (ValueError invalid_mode_msg)
      else Inr \<lparr>content = [], pos = 0, tf_closed = False,
                tf_readable = (reading \<or> updating),
                tf_writable = (creating \<or> writing \<or> appending \<or> updating),
                tf_binary = binary\<rparr>)"

definition NUL :: char where
  "NUL = CHR 0x00"

definition newline :: char where
  "newline = CHR 0x0A"

definition carriage_return :: char where
  "carriage_return = CHR 0x0D"

text \<open>
  Universal newlines: what a text file object returns for the units it reads. A CR
  followed by LF, and a CR alone, are returned as one LF.
\<close>

fun nl :: "string \<Rightarrow> string" where
  "nl [] = []"
| "nl [c] = (if c = carriage_return then [newline] else [c])"
| "nl (c # d # cs) =
     (if c = carriage_return
      then (if d = newline then newline # nl cs else newline # nl (d # cs))
      else c # nl (d # cs))"

text \<open>
  The number of stored units that the first \<open>k\<close> units returned by a text read stand
  for: a CR LF pair counts for two.
\<close>

fun consumed :: "nat \<Rightarrow> string \<Rightarrow> nat" where
  "consumed 0 raw = 0"
| "consumed (Suc k) [] = 0"
| "consumed (Suc k) [c] = 1"
| "consumed (Suc k) (c # d # cs) =
     (if c = carriage_return \<and> d = newline then 2 + consumed k cs
      else 1 + consumed k (d # cs))"

definition decoded :: "tempfile \<Rightarrow> string \<Rightarrow> string" where
  "decoded f raw = (if tf_binary f then raw else nl raw)"

definition advance :: "tempfile \<Rightarrow> nat \<Rightarrow> string \<Rightarrow> nat" where
  "advance f k raw = (if tf_binary f then k else consumed k raw)"

text \<open>The units of a text whose positions and sizes are counts of units.\<close>

definition ascii :: "string \<Rightarrow> bool" where
  "ascii s \<longleftrightarrow> list_all (\<lambda>c. of_char c < (128 :: nat)) s"

definition tf_write :: "string \<Rightarrow> tempfile \<Rightarrow> exn + tempfile" where
  "tf_write b f =
     (if tf_closed f then Inl (ValueError closed_file_msg)
      else if \<not> tf_writable f then Inl (UnsupportedOperation ''not writable'')
      else if b = [] then Inr f
      else Inr (f\<lparr>content := take (pos f) (content f)
                               @ replicate (pos f - length (content f)) NUL
                               @ b
                               @ drop (pos f + length b) (content f),
                   pos := pos f + length b\<rparr>))"

fun tf_writelines :: "string list \<Rightarrow> tempfile \<Rightarrow> exn + tempfile" where
  "tf_writelines [] f = (if tf_closed f then Inl (ValueError closed_file_msg) else Inr f)"
| "tf_writelines (l # ls) f =
     (case tf_write l f of Inl e \<Rightarrow> Inl e | Inr f1 \<Rightarrow> tf_writelines ls f1)"

text \<open>
  \<^verbatim>\<open>read(n)\<close>: a negative \<open>n\<close> reads to the end; a binary file object takes only
  \<open>-1\<close> as a negative length.
\<close>

definition tf_read :: "int \<Rightarrow> tempfile \<Rightarrow> exn + string \<times> tempfile" where
  "tf_read n f =
     (if tf_closed f then Inl (ValueError closed_file_msg)
      else if \<not> tf_readable f then Inl (UnsupportedOperation ''not readable'')
      else if tf_binary f \<and> n < - 1
        then Inl (ValueError ''read length must be non-negative or -1'')
      else let rest = drop (pos f) (content f) in
           if n < 0 then Inr (decoded f rest, f\<lparr>pos := pos f + length rest\<rparr>)
           else let d = take (nat n) (decoded f rest)
                in Inr (d, f\<lparr>pos := pos f + advance f (length d) rest\<rparr>))"

text \<open>One line: up to and including the first line terminator, or the whole tail.\<close>

fun first_line :: "string \<Rightarrow> string" where
  "first_line [] = []"
| "first_line (c # cs) = (if c = newline then [c] else c # first_line cs)"

definition tf_readline :: "int \<Rightarrow> tempfile \<Rightarrow> exn + string \<times> tempfile" where
  "tf_readline limit f =
     (if tf_closed f then Inl (ValueError closed_file_msg)
      else if \<not> tf_readable f then Inl (UnsupportedOperation ''not readable'')
      else let rest = drop (pos f) (content f);
               l = first_line (decoded f rest);
               d = (if limit < 0 then l else take (nat limit) l)
           in Inr (d, f\<lparr>pos := pos f + advance f (length d) rest\<rparr>))"

text \<open>The lines of a text, each with its terminator; \<open>acc\<close> is the line being read.\<close>

fun split_lines :: "string \<Rightarrow> string \<Rightarrow> string list" where
  "split_lines acc [] = (if acc = [] then [] else [acc])"
| "split_lines acc (c # cs) =
     (if c = newline then (acc @ [c]) # split_lines [] cs else split_lines (acc @ [c]) cs)"

text \<open>
  \<^verbatim>\<open>readlines(hint)\<close> with a positive hint stops after the line with which the total
  length exceeds the hint; \<open>n\<close> is the total so far.
\<close>

fun take_hint :: "nat \<Rightarrow> nat \<Rightarrow> string list \<Rightarrow> string list" where
  "take_hint hint n [] = []"
| "take_hint hint n (l # ls) =
     (if n + length l > hint then [l] else l # take_hint hint (n + length l) ls)"

definition tf_readlines :: "int \<Rightarrow> tempfile \<Rightarrow> exn + string list \<times> tempfile" where
  "tf_readlines hint f =
     (if tf_closed f then Inl (ValueError closed_file_msg)
      else if \<not> tf_readable f then Inl (UnsupportedOperation ''not readable'')
      else let rest = drop (pos f) (content f);
               ls = split_lines [] (decoded f rest);
               ds = (if hint \<le> 0 then ls else take_hint (nat hint) 0 ls)
           in Inr (ds, f\<lparr>pos := pos f + advance f (length (concat ds)) rest\<rparr>))"

text \<open>
  \<^verbatim>\<open>readinto(b)\<close> fills the caller's array \<open>b\<close> from its start and returns the number
  of units read together with the array. Only a binary file object has the method.
\<close>

definition tf_readinto :: "string \<Rightarrow> tempfile \<Rightarrow> exn + (nat \<times> string) \<times> tempfile" where
  "tf_readinto b f =
     (if \<not> tf_binary f then Inl (AttributeError ''readinto'')
      else if tf_closed f then Inl (ValueError closed_file_msg)
      else if \<not> tf_readable f then Inl (UnsupportedOperation ''not readable'')
      else let d = take (length b) (drop (pos f) (content f))
           in Inr ((length d, d @ drop (length d) b), f\<lparr>pos := pos f + length d\<rparr>))"

text \<open>
  \<^verbatim>\<open>seek(offset, whence)\<close>, for the three values of \<open>whence\<close> that every file object
  takes: \<^verbatim>\<open>os.SEEK_SET\<close> (0, the default), \<^verbatim>\<open>os.SEEK_CUR\<close> (1) and \<^verbatim>\<open>os.SEEK_END\<close>
  (2). A binary file object refuses an offset that is not a 64-bit signed integer and a
  target position that is negative (the file system refuses a position beyond the
  size of its largest file as well; that limit is not modelled). A text file object
  refuses a negative position and a nonzero offset relative to the cursor or to the
  end.
\<close>

datatype whence = SEEK_SET | SEEK_CUR | SEEK_END

definition tf_seek :: "int \<Rightarrow> whence \<Rightarrow> tempfile \<Rightarrow> exn + tempfile" where
  "tf_seek offset wh f =
     (if tf_closed f then Inl (ValueError closed_file_msg)
      else if tf_binary f then
        (if offset \<ge> 2 ^ 63 \<or> offset < - (2 ^ 63)
           then Inl (ValueError ''cannot fit int into an offset-sized integer'')
         else let base = (case wh of SEEK_SET \<Rightarrow> 0
                                   | SEEK_CUR \<Rightarrow> int (pos f)
                                   | SEEK_END \<Rightarrow> int (length (content f)));
                  target = base + offset
              in if target < 0 then Inl (IOError EINVAL None)
                 else Inr (f\<lparr>pos := nat target\<rparr>))
      else
        (case wh of
           SEEK_SET \<Rightarrow>
             if offset < 0 then Inl (ValueError ''negative seek position'')
             else Inr (f\<lparr>pos := nat offset\<rparr>)
         | SEEK_CUR \<Rightarrow>
             if offset \<noteq> 0 then Inl (UnsupportedOperation ''nonzero cur-relative seek'')
             else Inr f
         | SEEK_END \<Rightarrow>
             if offset \<noteq> 0 then Inl (UnsupportedOperation ''nonzero end-relative seek'')
             else Inr (f\<lparr>pos := length (content f)\<rparr>)))"

definition tf_tell :: "tempfile \<Rightarrow> exn + nat" where
  "tf_tell f = (if tf_closed f then Inl (ValueError closed_file_msg) else Inr (pos f))"

text \<open>
  \<^verbatim>\<open>truncate(size)\<close>: a size that is not a 64-bit signed integer and a negative size
  are refused (so is a size beyond the largest file of the file system, which is not
  modelled); the cursor stays where it is.
\<close>

definition tf_truncate :: "int \<Rightarrow> tempfile \<Rightarrow> exn + tempfile" where
  "tf_truncate sz f =
     (if tf_closed f then Inl (ValueError closed_file_msg)
      else if \<not> tf_writable f then Inl (UnsupportedOperation ''not writable'')
      else if sz \<ge> 2 ^ 63 \<or> sz < - (2 ^ 63)
        then Inl (OverflowError ''Python int too large to convert to C long'')
      else if sz < 0 then Inl (IOError EINVAL None)
      else Inr (f\<lparr>content := take (nat sz) (content f)
                               @ replicate (nat sz - length (content f)) NUL\<rparr>))"

definition tf_close :: "tempfile \<Rightarrow> tempfile" where
  "tf_close f = f\<lparr>tf_closed := True\<rparr>"

section \<open>The object store\<close>

text \<open>
  The store client (\<^verbatim>\<open>boto3\<close>) is outside the repository. It is modelled the way the
  test suite's double stands in for it: a download either raises or writes the object's
  content into the file it is given, at the file's cursor; an upload either raises or
  reads the file it is given from the cursor to the end and keeps what it read. The
  record holds what the store will answer and what it has been asked: the two call
  counts of the double, and every content it received, oldest first.
\<close>

record s3 =
  download_reply :: "exn + string"
  upload_reply :: "exn option"
  download_calls :: nat
  upload_calls :: nat
  uploaded :: "string list"

definition download_fileobj :: "tempfile \<Rightarrow> s3 \<Rightarrow> exn option \<times> tempfile \<times> s3" where
  "download_fileobj f w =
     (let w1 = w\<lparr>download_calls := download_calls w + 1\<rparr> in
      case download_reply w of
        Inl e \<Rightarrow> (Some e, f, w1)
      | Inr body \<Rightarrow>
          (case tf_write body f of
             Inl e \<Rightarrow> (Some e, f, w1)
           | Inr f1 \<Rightarrow> (None, f1, w1)))"

definition upload_fileobj :: "tempfile \<Rightarrow> s3 \<Rightarrow> exn option \<times> tempfile \<times> s3" where
  "upload_fileobj f w =
     (let w1 = w\<lparr>upload_calls := upload_calls w + 1\<rparr> in
      case upload_reply w of
        Some e \<Rightarrow> (Some e, f, w1)
      | None \<Rightarrow>
          (case tf_read (- 1) f of
             Inl e \<Rightarrow> (Some e, f, w1)
           | Inr (body, f1) \<Rightarrow> (None, f1, w1\<lparr>uploaded := uploaded w1 @ [body]\<rparr>)))"

section \<open>The stream: class \<^verbatim>\<open>S3File\<close>\<close>

record S3File =
  bucket :: string
  key :: string
  mode :: string
  path :: string
  tempfile :: tempfile

text \<open>
  \<^verbatim>\<open>re.sub(r'^([rwa]+)(b?)$', r'\1+\2', mode)\<close>. The pattern matches when the token is
  a nonempty run of \<open>r\<close>, \<open>w\<close>, \<open>a\<close>, then at most one \<open>b\<close>, up to the end of the
  token or to a final line feed (\<^verbatim>\<open>$\<close> also matches just before one). The match is
  replaced by the run, a \<open>+\<close>, and the \<open>b\<close> if there is one; a final line feed stays.
  A token that does not match is returned as it is.
\<close>

definition updatable_mode :: "string \<Rightarrow> string" where
  "updatable_mode m =
     (let g1 = takeWhile (\<lambda>c. c \<in> set ''rwa'') m;
          rest = dropWhile (\<lambda>c. c \<in> set ''rwa'') m
      in if g1 \<noteq> [] \<and> (rest = [] \<or> rest = ''b'' \<or> rest = [newline] \<or> rest = ''b'' @ [newline])
         then g1 @ ''+'' @ rest
         else m)"

definition readable :: "S3File \<Rightarrow> bool" where
  "readable self \<longleftrightarrow> CHR ''r'' \<in> set (mode self) \<or> CHR ''+'' \<in> set (mode self)"

definition writable :: "S3File \<Rightarrow> bool" where
  "writable self \<longleftrightarrow>
     CHR ''w'' \<in> set (mode self) \<or> CHR ''a'' \<in> set (mode self)
     \<or> CHR ''+'' \<in> set (mode self) \<or> CHR ''x'' \<in> set (mode self)"

text \<open>
  Every method returns its outcome together with the object, so that what a failed call
  leaves behind can be stated. The methods that reach the store also take and return it.
\<close>

definition tell :: "S3File \<Rightarrow> (exn + int) \<times> S3File" where
  "tell self =
     (case tf_tell (tempfile self) of
        Inl e \<Rightarrow> (Inl e, self)
      | Inr p \<Rightarrow> (Inr (int p), self))"

definition seek :: "int \<Rightarrow> whence \<Rightarrow> S3File \<Rightarrow> (exn + int) \<times> S3File" where
  "seek offset whence self =
     (case tf_seek offset whence (tempfile self) of
        Inl e \<Rightarrow> (Inl e, self)
      | Inr f \<Rightarrow> tell (self\<lparr>tempfile := f\<rparr>))"

definition read :: "int \<Rightarrow> S3File \<Rightarrow> (exn + string) \<times> S3File" where
  "read n self =
     (if \<not> readable self then (Inl (IOError_msg ''not open for reading''), self)
      else case tf_read n (tempfile self) of
             Inl e \<Rightarrow> (Inl e, self)
           | Inr (d, f) \<Rightarrow> (Inr d, self\<lparr>tempfile := f\<rparr>))"

definition readinto :: "string \<Rightarrow> S3File \<Rightarrow> (exn + nat \<times> string) \<times> S3File" where
  "readinto b self =
     (case tf_readinto b (tempfile self) of
        Inl e \<Rightarrow> (Inl e, self)
      | Inr (r, f) \<Rightarrow> (Inr r, self\<lparr>tempfile := f\<rparr>))"

definition readline :: "int \<Rightarrow> S3File \<Rightarrow> (exn + string) \<times> S3File" where
  "readline limit self =
     (if \<not> readable self then (Inl (IOError_msg ''not open for reading''), self)
      else case tf_readline limit (tempfile self) of
             Inl e \<Rightarrow> (Inl e, self)
           | Inr (d, f) \<Rightarrow> (Inr d, self\<lparr>tempfile := f\<rparr>))"

definition readlines :: "int \<Rightarrow> S3File \<Rightarrow> (exn + string list) \<times> S3File" where
  "readlines hint self =
     (if \<not> readable self then (Inl (IOError_msg ''not open for reading''), self)
      else case tf_readlines hint (tempfile self) of
             Inl e \<Rightarrow> (Inl e, self)
           | Inr (ds, f) \<Rightarrow> (Inr ds, self\<lparr>tempfile := f\<rparr>))"

definition write_to :: "string \<Rightarrow> S3File \<Rightarrow> (exn + nat) \<times> S3File" where
  "write_to b self =
     (if \<not> writable self then (Inl (IOError_msg ''not open for writing''), self)
      else case tf_write b (tempfile self) of
             Inl e \<Rightarrow> (Inl e, self)
           | Inr f \<Rightarrow> (Inr (length b), self\<lparr>tempfile := f\<rparr>))"

definition writelines :: "string list \<Rightarrow> S3File \<Rightarrow> (exn + unit) \<times> S3File" where
  "writelines lines self =
     (if \<not> writable self then (Inl (IOError_msg ''not open for writing''), self)
      else case tf_writelines lines (tempfile self) of
             Inl e \<Rightarrow> (Inl e, self)
           | Inr f \<Rightarrow> (Inr (), self\<lparr>tempfile := f\<rparr>))"

text \<open>\<^verbatim>\<open>truncate(size=None)\<close>: the argument is \<open>None\<close> when it is left out.\<close>

definition truncate :: "int option \<Rightarrow> S3File \<Rightarrow> (exn + int) \<times> S3File" where
  "truncate size_arg self =
     (if \<not> writable self then (Inl (IOError_msg ''not open for writing''), self)
      else case (case size_arg of None \<Rightarrow> fst (tell self) | Some s \<Rightarrow> Inr s) of
             Inl e \<Rightarrow> (Inl e, self)
           | Inr sz \<Rightarrow>
               (case tf_truncate sz (tempfile self) of
                  Inl e \<Rightarrow> (Inl e, self)
                | Inr f \<Rightarrow> (Inr sz, self\<lparr>tempfile := f\<rparr>)))"

text \<open>
  \<^verbatim>\<open>close\<close>: the \<^verbatim>\<open>try\<close> body gives an exception or none; the \<^verbatim>\<open>finally\<close> clause
  closes the scratch file on both paths, and the exception, if any, goes on to the
  caller.
\<close>

definition close_body :: "S3File \<Rightarrow> s3 \<Rightarrow> exn option \<times> S3File \<times> s3" where
  "close_body self w =
     (if writable self then
        (case seek 0 SEEK_SET self of
           (Inl e, self1) \<Rightarrow> (Some e, self1, w)
         | (Inr p, self1) \<Rightarrow>
             (case upload_fileobj (tempfile self1) w of
                (Some e, f, w1) \<Rightarrow> (Some (s3errors (path self1) e), self1\<lparr>tempfile := f\<rparr>, w1)
              | (None, f, w1) \<Rightarrow> (None, self1\<lparr>tempfile := f\<rparr>, w1)))
      else (None, self, w))"

definition close :: "S3File \<Rightarrow> s3 \<Rightarrow> exn option \<times> S3File \<times> s3" where
  "close self w =
     (case close_body self w of
        (r, self1, w1) \<Rightarrow> (r, self1\<lparr>tempfile := tf_close (tempfile self1)\<rparr>, w1))"

text \<open>
  The \<^verbatim>\<open>with s3errors(self.path)\<close> block of the constructor: a download followed by a
  seek (to the end in an appending mode, to the start in a mode that is neither
  appending, writing nor creating), or nothing.
\<close>

definition fetch_and_seek :: "whence \<Rightarrow> S3File \<Rightarrow> s3 \<Rightarrow> exn option \<times> S3File \<times> s3" where
  "fetch_and_seek whence self w =
     (case download_fileobj (tempfile self) w of
        (Some e, f, w1) \<Rightarrow> (Some (s3errors (path self) e), self\<lparr>tempfile := f\<rparr>, w1)
      | (None, f, w1) \<Rightarrow>
          (case seek 0 whence (self\<lparr>tempfile := f\<rparr>) of
             (Inl e, self1) \<Rightarrow> (Some (s3errors (path self) e), self1, w1)
           | (Inr p, self1) \<Rightarrow> (None, self1, w1)))"

definition init_body :: "S3File \<Rightarrow> s3 \<Rightarrow> exn option \<times> S3File \<times> s3" where
  "init_body self w =
     (if CHR ''a'' \<in> set (mode self) then fetch_and_seek SEEK_END self w
      else if CHR ''a'' \<notin> set (mode self) \<and> CHR ''w'' \<notin> set (mode self)
              \<and> CHR ''x'' \<notin> set (mode self)
        then fetch_and_seek SEEK_SET self w
      else (None, self, w))"

text \<open>
  \<^verbatim>\<open>S3File(bucket, key, mode)\<close>. The scratch file is created before the \<^verbatim>\<open>try\<close>: when
  it rejects the token there is no object and nothing to close. An exception in the
  \<^verbatim>\<open>try\<close> body calls \<^verbatim>\<open>self.close()\<close> and is raised again, unless \<^verbatim>\<open>close\<close>
  raises itself: then that exception goes to the caller. A failed construction returns
  the exception and the object as the handler left it.
\<close>

definition S3File_init ::
  "string \<Rightarrow> string \<Rightarrow> string \<Rightarrow> s3 \<Rightarrow> (exn \<times> S3File option + S3File) \<times> s3" where
  "S3File_init b k m w =
     (case TemporaryFile (updatable_mode m) of
        Inl e \<Rightarrow> (Inl (e, None), w)
      | Inr f \<Rightarrow>
          (case init_body \<lparr>bucket = b, key = k, mode = m, path = b @ ''/'' @ k, tempfile = f\<rparr> w of
             (None, self1, w1) \<Rightarrow> (Inr self1, w1)
           | (Some e, self1, w1) \<Rightarrow>
               (case close self1 w1 of
                  (None, self2, w2) \<Rightarrow> (Inl (e, Some self2), w2)
                | (Some e2, self2, w2) \<Rightarrow> (Inl (e2, Some self2), w2))))"

text \<open>
  The \<^verbatim>\<open>closed\<close> property. The remaining methods are not modelled: \<^verbatim>\<open>fileno\<close>,
  \<^verbatim>\<open>flush\<close> and \<^verbatim>\<open>isatty\<close> hand over to the scratch file, \<^verbatim>\<open>seekable\<close> is
  constantly true, \<^verbatim>\<open>__enter__\<close> returns the object and \<^verbatim>\<open>__exit__\<close> is \<^verbatim>\<open>close\<close>.
\<close>

definition is_closed :: "S3File \<Rightarrow> bool" where
  "is_closed self \<longleftrightarrow> tf_closed (tempfile self)"

section \<open>Notions the properties are stated with\<close>

text \<open>
  The failures of the store client that \<^verbatim>\<open>s3errors\<close> has an \<^verbatim>\<open>except\<close> clause for.
\<close>

fun is_store_failure :: "exn \<Rightarrow> bool" where
  "is_store_failure (ClientError c s) = True"
| "is_store_failure SSLError = True"
| "is_store_failure EndpointConnectionError = True"
| "is_store_failure e = False"

text \<open>
  An open stream: the scratch file is open and is the kind of file object that the
  constructor creates for the stream's mode, and the path is the one the constructor
  computes. The constructor establishes this and every method but \<^verbatim>\<open>close\<close> keeps it.
\<close>

definition opened :: "S3File \<Rightarrow> bool" where
  "opened self \<longleftrightarrow>
     path self = bucket self @ ''/'' @ key self
     \<and> \<not> tf_closed (tempfile self)
     \<and> (case TemporaryFile (updatable_mode (mode self)) of
          Inl e \<Rightarrow> False
        | Inr f \<Rightarrow> tf_readable (tempfile self) = tf_readable f
                 \<and> tf_writable (tempfile self) = tf_writable f
                 \<and> tf_binary (tempfile self) = tf_binary f)"

text \<open>
  The mode tokens with which the \<^verbatim>\<open>try\<close> body of the constructor downloads: the
  conditions of its two branches.
\<close>

definition fetch_mode :: "string \<Rightarrow> bool" where
  "fetch_mode m \<longleftrightarrow>
     CHR ''a'' \<in> set m
     \<or> (CHR ''a'' \<notin> set m \<and> CHR ''w'' \<notin> set m \<and> CHR ''x'' \<notin> set m)"

text \<open>
  Whether the scratch file that the constructor creates for a mode token can be read,
  and whether it can be written: the token is rewritten first, so that \<open>a\<close> gives a
  scratch file that reads and writes, while \<open>at\<close> and \<open>xb\<close>, which the rewrite leaves
  alone, give one that only writes, and \<open>rt\<close> one that only reads.
\<close>

definition scratch_readable :: "string \<Rightarrow> bool" where
  "scratch_readable m \<longleftrightarrow>
     (case TemporaryFile (updatable_mode m) of Inl e \<Rightarrow> False | Inr f \<Rightarrow> tf_readable f)"

definition scratch_writable :: "string \<Rightarrow> bool" where
  "scratch_writable m \<longleftrightarrow>
     (case TemporaryFile (updatable_mode m) of Inl e \<Rightarrow> False | Inr f \<Rightarrow> tf_writable f)"

section \<open>Example values\<close>

text \<open>
  A store that holds a short text and accepts uploads, with no call made yet; the
  theorems below are instantiated with it and with variants of it.
\<close>

definition store0 :: s3 where
  "store0 = \<lparr>download_reply = Inr ''Four score'', upload_reply = None,
              download_calls = 0, upload_calls = 0, uploaded = []\<rparr>"

text \<open>
  The mode tokens the specification recognises: one letter of \<open>r\<close>, \<open>w\<close>, \<open>a\<close>,
  \<open>x\<close>, combined with at most one \<open>+\<close> and at most one of the markers \<open>b\<close> and
  \<open>t\<close>, and nothing else. The definition follows the specification's sentence, not
  the code.
\<close>

definition recognized_mode :: "string \<Rightarrow> bool" where
  "recognized_mode m \<longleftrightarrow>
     set m \<subseteq> set ''rwax+bt''
     \<and> count_list m (CHR ''r'') + count_list m (CHR ''w'')
         + count_list m (CHR ''a'') + count_list m (CHR ''x'') = 1
     \<and> count_list m (CHR ''+'') \<le> 1
     \<and> count_list m (CHR ''b'') + count_list m (CHR ''t'') \<le> 1"

section \<open>Basic facts about the model\<close>

lemma if_chain4:
  "(if A then X else if B then X else if C then X else if D then X else Y) = X
   \<or> (if A then X else if B then X else if C then X else if D then X else Y) = Y"
  by simp

lemma TemporaryFile_cases:
  "TemporaryFile m = Inl (ValueError invalid_mode_msg) \<or>
   TemporaryFile m = Inr \<lparr>content = [], pos = 0, tf_closed = False,
       tf_readable = (CHR ''r'' \<in> set m \<or> CHR ''+'' \<in> set m),
       tf_writable = (CHR ''x'' \<in> set m \<or> CHR ''w'' \<in> set m \<or> CHR ''a'' \<in> set m \<or> CHR ''+'' \<in> set m),
       tf_binary = (CHR ''b'' \<in> set m)\<rparr>"
  unfolding TemporaryFile_def Let_def
  by (rule if_chain4)


lemma TemporaryFile_Inr:
  "TemporaryFile m = Inr f \<Longrightarrow>
     content f = [] \<and> pos f = 0 \<and> \<not> tf_closed f
     \<and> tf_readable f = (CHR ''r'' \<in> set m \<or> CHR ''+'' \<in> set m)
     \<and> tf_writable f = (CHR ''x'' \<in> set m \<or> CHR ''w'' \<in> set m \<or> CHR ''a'' \<in> set m \<or> CHR ''+'' \<in> set m)
     \<and> tf_binary f = (CHR ''b'' \<in> set m)"
proof -
  assume a: "TemporaryFile m = Inr f"
  have "TemporaryFile m \<noteq> Inl (ValueError invalid_mode_msg)"
    by (simp only: a sum.distinct not_False_eq_True)
  with TemporaryFile_cases [of m] have
    "TemporaryFile m = Inr \<lparr>content = [], pos = 0, tf_closed = False,
       tf_readable = (CHR ''r'' \<in> set m \<or> CHR ''+'' \<in> set m),
       tf_writable = (CHR ''x'' \<in> set m \<or> CHR ''w'' \<in> set m \<or> CHR ''a'' \<in> set m \<or> CHR ''+'' \<in> set m),
       tf_binary = (CHR ''b'' \<in> set m)\<rparr>"
    by blast
  with a have "f = \<lparr>content = [], pos = 0, tf_closed = False,
       tf_readable = (CHR ''r'' \<in> set m \<or> CHR ''+'' \<in> set m),
       tf_writable = (CHR ''x'' \<in> set m \<or> CHR ''w'' \<in> set m \<or> CHR ''a'' \<in> set m \<or> CHR ''+'' \<in> set m),
       tf_binary = (CHR ''b'' \<in> set m)\<rparr>"
    by (simp only: sum.inject)
  then show ?thesis by simp
qed

lemma set_updatable_mode:
  "set (updatable_mode m) = set m \<or> set (updatable_mode m) = insert (CHR ''+'') (set m)"
proof -
  let ?P = "\<lambda>c. c \<in> set ''rwa''"
  have "set (takeWhile ?P m) \<union> set (dropWhile ?P m) = set m"
    by (metis set_append takeWhile_dropWhile_id)
  then have "set (takeWhile ?P m @ ''+'' @ dropWhile ?P m) = insert (CHR ''+'') (set m)"
    by (simp only: set_append set_simps) blast
  then show ?thesis
    unfolding updatable_mode_def Let_def by (simp only: split: if_splits) argo
qed


lemma opened_caps:
  assumes "opened self"
  shows "tf_readable (tempfile self) = (CHR ''r'' \<in> set (mode self) \<or> CHR ''+'' \<in> set (updatable_mode (mode self)))"
    and "tf_writable (tempfile self) =
          (CHR ''x'' \<in> set (mode self) \<or> CHR ''w'' \<in> set (mode self) \<or> CHR ''a'' \<in> set (mode self)
           \<or> CHR ''+'' \<in> set (updatable_mode (mode self)))"
    and "tf_binary (tempfile self) = (CHR ''b'' \<in> set (mode self))"
proof -
  let ?u = "updatable_mode (mode self)"
  from assms have c: "case TemporaryFile ?u of Inl e \<Rightarrow> False
     | Inr f \<Rightarrow> tf_readable (tempfile self) = tf_readable f
                 \<and> tf_writable (tempfile self) = tf_writable f
                 \<and> tf_binary (tempfile self) = tf_binary f"
    unfolding opened_def by blast
  then obtain f where f: "TemporaryFile ?u = Inr f"
    by (cases "TemporaryFile ?u") simp_all
  from c f have eq: "tf_readable (tempfile self) = tf_readable f"
      "tf_writable (tempfile self) = tf_writable f" "tf_binary (tempfile self) = tf_binary f"
    by simp_all
  have mem: "c \<noteq> CHR ''+'' \<Longrightarrow> c \<in> set ?u \<longleftrightarrow> c \<in> set (mode self)" for c
    using set_updatable_mode [of "mode self"] by blast
  note t = TemporaryFile_Inr [OF f]
  show "tf_readable (tempfile self) = (CHR ''r'' \<in> set (mode self) \<or> CHR ''+'' \<in> set ?u)"
    using t eq(1) mem [of "CHR ''r''"] by simp
  show "tf_writable (tempfile self) =
          (CHR ''x'' \<in> set (mode self) \<or> CHR ''w'' \<in> set (mode self) \<or> CHR ''a'' \<in> set (mode self)
           \<or> CHR ''+'' \<in> set ?u)"
    using t eq(2) mem [of "CHR ''x''"] mem [of "CHR ''w''"] mem [of "CHR ''a''"] by simp
  show "tf_binary (tempfile self) = (CHR ''b'' \<in> set (mode self))"
    using t eq(3) mem [of "CHR ''b''"] by simp
qed

lemma plus_updatable: "CHR ''+'' \<in> set m \<Longrightarrow> CHR ''+'' \<in> set (updatable_mode m)"
  using set_updatable_mode [of m] by blast

lemma opened_writable:
  assumes "opened self" "writable self"
  shows "tf_writable (tempfile self)"
  using opened_caps(2) [OF assms(1)] assms(2) plus_updatable [of "mode self"]
  unfolding writable_def by blast

lemma opened_not_closed: "opened self \<Longrightarrow> \<not> tf_closed (tempfile self)"
  by (simp add: opened_def)

lemma opened_path: "opened self \<Longrightarrow> path self = bucket self @ ''/'' @ key self"
  by (simp add: opened_def)

lemma opened_tempfile_update:
  "opened self \<Longrightarrow> \<not> tf_closed f \<Longrightarrow> tf_readable f = tf_readable (tempfile self) \<Longrightarrow>
   tf_writable f = tf_writable (tempfile self) \<Longrightarrow> tf_binary f = tf_binary (tempfile self) \<Longrightarrow>
   opened (self\<lparr>tempfile := f\<rparr>)"
  unfolding opened_def by (cases "TemporaryFile (updatable_mode (mode self))") simp_all

subsection \<open>The store calls\<close>

lemma download_fileobj_fault:
  "download_reply w = Inl e \<Longrightarrow>
   download_fileobj f w = (Some e, f, w\<lparr>download_calls := download_calls w + 1\<rparr>)"
  by (simp add: download_fileobj_def)

lemma upload_fileobj_fault:
  "upload_reply w = Some e \<Longrightarrow>
   upload_fileobj f w = (Some e, f, w\<lparr>upload_calls := upload_calls w + 1\<rparr>)"
  by (simp add: upload_fileobj_def)

lemma upload_fileobj_ok:
  "upload_reply w = None \<Longrightarrow> \<not> tf_closed f \<Longrightarrow> tf_readable f \<Longrightarrow>
   upload_fileobj f w =
     (None, f\<lparr>pos := pos f + length (drop (pos f) (content f))\<rparr>,
      w\<lparr>upload_calls := upload_calls w + 1, uploaded := uploaded w @ [decoded f (drop (pos f) (content f))]\<rparr>)"
  by (simp add: upload_fileobj_def tf_read_def Let_def decoded_def)

subsection \<open>Seeking to the start\<close>

lemma seek_start:
  "\<not> tf_closed (tempfile self) \<Longrightarrow>
   seek 0 SEEK_SET self = (Inr 0, self\<lparr>tempfile := (tempfile self)\<lparr>pos := 0\<rparr>\<rparr>)"
  by (simp add: seek_def tf_seek_def tell_def tf_tell_def Let_def)

lemma seek_closed:
  "tf_closed (tempfile self) \<Longrightarrow> seek offset whence self = (Inl (ValueError closed_file_msg), self)"
  by (simp add: seek_def tf_seek_def)

subsection \<open>Closing\<close>

lemma close_not_writable:
  "\<not> writable self \<Longrightarrow> close self w = (None, self\<lparr>tempfile := tf_close (tempfile self)\<rparr>, w)"
  by (simp add: close_def close_body_def)

lemma close_upload_fault:
  "writable self \<Longrightarrow> \<not> tf_closed (tempfile self) \<Longrightarrow> upload_reply w = Some e \<Longrightarrow>
   close self w =
     (Some (s3errors (path self) e),
      self\<lparr>tempfile := tf_close ((tempfile self)\<lparr>pos := 0\<rparr>)\<rparr>,
      w\<lparr>upload_calls := upload_calls w + 1\<rparr>)"
  by (simp add: close_def close_body_def seek_start upload_fileobj_fault)

lemma close_upload_ok:
  "writable self \<Longrightarrow> \<not> tf_closed (tempfile self) \<Longrightarrow> tf_readable (tempfile self) \<Longrightarrow>
   upload_reply w = None \<Longrightarrow>
   close self w =
     (None,
      self\<lparr>tempfile := tf_close ((tempfile self)\<lparr>pos := length (content (tempfile self))\<rparr>)\<rparr>,
      w\<lparr>upload_calls := upload_calls w + 1, uploaded := uploaded w @ [decoded (tempfile self) (content (tempfile self))]\<rparr>)"
  by (simp add: close_def close_body_def seek_start upload_fileobj_ok decoded_def)

lemma close_closed_writable:
  "writable self \<Longrightarrow> tf_closed (tempfile self) \<Longrightarrow>
   close self w = (Some (ValueError closed_file_msg), self, w)"
  by (simp add: close_def close_body_def seek_closed tf_close_def)

lemma close_releases: "tf_closed (tempfile (fst (snd (close self w))))"
  by (simp add: close_def tf_close_def split: prod.splits)

subsection \<open>The constructor\<close>

lemma init_rejected:
  "TemporaryFile (updatable_mode m) = Inl e \<Longrightarrow> S3File_init b k m w = (Inl (e, None), w)"
  by (simp add: S3File_init_def)

lemma init_no_fetch:
  "TemporaryFile (updatable_mode m) = Inr f \<Longrightarrow> CHR ''a'' \<notin> set m \<Longrightarrow>
   CHR ''w'' \<in> set m \<or> CHR ''x'' \<in> set m \<Longrightarrow>
   S3File_init b k m w =
     (Inr \<lparr>bucket = b, key = k, mode = m, path = b @ ''/'' @ k, tempfile = f\<rparr>, w)"
  by (auto simp add: S3File_init_def init_body_def)

lemma fetch_and_seek_fault:
  "download_reply w = Inl e \<Longrightarrow>
   fetch_and_seek wh self w =
     (Some (s3errors (path self) e), self, w\<lparr>download_calls := download_calls w + 1\<rparr>)"
  by (simp add: fetch_and_seek_def download_fileobj_fault)

lemma tf_write_fresh:
  "content f = [] \<Longrightarrow> pos f = 0 \<Longrightarrow> \<not> tf_closed f \<Longrightarrow> tf_writable f \<Longrightarrow>
   tf_write body f = Inr (f\<lparr>content := body, pos := length body\<rparr>)"
  by (cases f) (simp add: tf_write_def)

lemma fetch_and_seek_ok:
  assumes "download_reply w = Inr body" "content (tempfile self) = []" "pos (tempfile self) = 0"
    "\<not> tf_closed (tempfile self)" "tf_writable (tempfile self)" "wh = SEEK_SET \<or> wh = SEEK_END"
  shows "fetch_and_seek wh self w =
     (None, self\<lparr>tempfile := (tempfile self)\<lparr>content := body,
                                 pos := (if wh = SEEK_SET then 0 else length body)\<rparr>\<rparr>,
      w\<lparr>download_calls := download_calls w + 1\<rparr>)"
proof -
  have d: "download_fileobj (tempfile self) w =
      (None, (tempfile self)\<lparr>content := body, pos := length body\<rparr>,
       w\<lparr>download_calls := download_calls w + 1\<rparr>)"
    using assms(1) tf_write_fresh [OF assms(2-5), of body] by (simp add: download_fileobj_def)
  show ?thesis
    using assms(4,6) unfolding fetch_and_seek_def d
    by (auto simp add: seek_def tf_seek_def tell_def tf_tell_def Let_def)
qed

lemma fetch_and_seek_unwritable:
  assumes "download_reply w = Inr body" "\<not> tf_closed (tempfile self)" "\<not> tf_writable (tempfile self)"
  shows "fetch_and_seek wh self w =
     (Some (UnsupportedOperation ''not writable''), self,
      w\<lparr>download_calls := download_calls w + 1\<rparr>)"
  using assms by (simp add: fetch_and_seek_def download_fileobj_def tf_write_def)

lemma init_body_fetch:
  "fetch_mode (mode self) \<Longrightarrow>
   init_body self w = fetch_and_seek (if CHR ''a'' \<in> set (mode self) then SEEK_END else SEEK_SET) self w"
  unfolding init_body_def fetch_mode_def by auto

lemma init_body_no_fetch: "\<not> fetch_mode (mode self) \<Longrightarrow> init_body self w = (None, self, w)"
  unfolding init_body_def fetch_mode_def by auto

lemma init_not_fetch_mode:
  "TemporaryFile (updatable_mode m) = Inr f \<Longrightarrow> \<not> fetch_mode m \<Longrightarrow>
   S3File_init b k m w =
     (Inr \<lparr>bucket = b, key = k, mode = m, path = b @ ''/'' @ k, tempfile = f\<rparr>, w)"
  by (simp add: S3File_init_def init_body_no_fetch)

lemma init_fetch_fault:
  assumes "TemporaryFile (updatable_mode m) = Inr f" "fetch_mode m" "download_reply w = Inl e"
  shows "S3File_init b k m w =
     (case close \<lparr>bucket = b, key = k, mode = m, path = b @ ''/'' @ k, tempfile = f\<rparr>
                 (w\<lparr>download_calls := download_calls w + 1\<rparr>) of
        (None, self2, w2) \<Rightarrow> (Inl (s3errors (b @ ''/'' @ k) e, Some self2), w2)
      | (Some e2, self2, w2) \<Rightarrow> (Inl (e2, Some self2), w2))"
  using assms
  by (simp add: S3File_init_def init_body_fetch fetch_and_seek_fault split: prod.splits option.splits)

lemma init_fetch_ok:
  assumes "TemporaryFile (updatable_mode m) = Inr f" "fetch_mode m" "download_reply w = Inr body"
    "tf_writable f"
  shows "S3File_init b k m w =
     (Inr \<lparr>bucket = b, key = k, mode = m, path = b @ ''/'' @ k,
           tempfile = f\<lparr>content := body,
                        pos := (if CHR ''a'' \<in> set m then length body else 0)\<rparr>\<rparr>,
      w\<lparr>download_calls := download_calls w + 1\<rparr>)"
proof -
  let ?self = "\<lparr>bucket = b, key = k, mode = m, path = b @ ''/'' @ k, tempfile = f\<rparr>"
  note t = TemporaryFile_Inr [OF assms(1)]
  have "fetch_and_seek (if CHR ''a'' \<in> set m then SEEK_END else SEEK_SET) ?self w =
     (None, ?self\<lparr>tempfile := (tempfile ?self)\<lparr>content := body,
          pos := (if (if CHR ''a'' \<in> set m then SEEK_END else SEEK_SET) = SEEK_SET then 0 else length body)\<rparr>\<rparr>,
      w\<lparr>download_calls := download_calls w + 1\<rparr>)"
    by (rule fetch_and_seek_ok) (use assms(3,4) t in simp_all)
  then show ?thesis
    using assms(1,2) by (simp add: S3File_init_def init_body_fetch)
qed

lemma init_fetch_unwritable:
  assumes "TemporaryFile (updatable_mode m) = Inr f" "fetch_mode m" "download_reply w = Inr body"
    "\<not> tf_writable f"
  shows "S3File_init b k m w =
     (case close \<lparr>bucket = b, key = k, mode = m, path = b @ ''/'' @ k, tempfile = f\<rparr>
                 (w\<lparr>download_calls := download_calls w + 1\<rparr>) of
        (None, self2, w2) \<Rightarrow> (Inl (UnsupportedOperation ''not writable'', Some self2), w2)
      | (Some e2, self2, w2) \<Rightarrow> (Inl (e2, Some self2), w2))"
proof -
  let ?self = "\<lparr>bucket = b, key = k, mode = m, path = b @ ''/'' @ k, tempfile = f\<rparr>"
  note t = TemporaryFile_Inr [OF assms(1)]
  have "fetch_and_seek (if CHR ''a'' \<in> set m then SEEK_END else SEEK_SET) ?self w =
     (Some (UnsupportedOperation ''not writable''), ?self,
      w\<lparr>download_calls := download_calls w + 1\<rparr>)"
    by (rule fetch_and_seek_unwritable) (use assms(3,4) t in simp_all)
  then show ?thesis
    using assms(1,2) by (simp add: S3File_init_def init_body_fetch)
qed

lemma init_success_cases:
  assumes "S3File_init b k m w = (Inr self, w')"
  shows "\<exists>f. TemporaryFile (updatable_mode m) = Inr f \<and>
     ((\<not> fetch_mode m
        \<and> self = \<lparr>bucket = b, key = k, mode = m, path = b @ ''/'' @ k, tempfile = f\<rparr>
        \<and> w' = w)
      \<or> (fetch_mode m \<and> tf_writable f
          \<and> (\<exists>body. download_reply w = Inr body
                \<and> self = \<lparr>bucket = b, key = k, mode = m, path = b @ ''/'' @ k,
                           tempfile = f\<lparr>content := body,
                             pos := (if CHR ''a'' \<in> set m then length body else 0)\<rparr>\<rparr>
                \<and> w' = w\<lparr>download_calls := download_calls w + 1\<rparr>)))"
proof (cases "TemporaryFile (updatable_mode m)")
  case (Inl e)
  from init_rejected [OF Inl, of b k w] assms show ?thesis by simp
next
  case (Inr f)
  show ?thesis
  proof (cases "fetch_mode m")
    case False
    from init_not_fetch_mode [OF Inr False, of b k w] assms Inr False show ?thesis by simp
  next
    case True
    show ?thesis
    proof (cases "download_reply w")
      case (Inl e)
      from init_fetch_fault [OF Inr True Inl, of b k] assms show ?thesis
        by (simp split: prod.splits option.splits)
    next
      case body: (Inr body)
      show ?thesis
      proof (cases "tf_writable f")
        case True
        from init_fetch_ok [OF Inr \<open>fetch_mode m\<close> body True, of b k] assms
        have "self = \<lparr>bucket = b, key = k, mode = m, path = b @ ''/'' @ k,
                           tempfile = f\<lparr>content := body,
                             pos := (if CHR ''a'' \<in> set m then length body else 0)\<rparr>\<rparr>
                \<and> w' = w\<lparr>download_calls := download_calls w + 1\<rparr>"
          by simp
        with Inr \<open>fetch_mode m\<close> True body show ?thesis by blast
      next
        case False
        from init_fetch_unwritable [OF Inr \<open>fetch_mode m\<close> body False, of b k] assms show ?thesis
          by (simp split: prod.splits option.splits)
      qed
    qed
  qed
qed

lemma init_success_opened:
  assumes "S3File_init b k m w = (Inr self, w')"
  shows "opened self" and "bucket self = b" and "key self = k" and "mode self = m"
    and "path self = b @ ''/'' @ k"
proof -
  from init_success_cases [OF assms] obtain f where
    f: "TemporaryFile (updatable_mode m) = Inr f" and
    s: "self = \<lparr>bucket = b, key = k, mode = m, path = b @ ''/'' @ k, tempfile = f\<rparr>
        \<or> (\<exists>body. self = \<lparr>bucket = b, key = k, mode = m, path = b @ ''/'' @ k,
                           tempfile = f\<lparr>content := body,
                             pos := (if CHR ''a'' \<in> set m then length body else 0)\<rparr>\<rparr>)"
    by blast
  note t = TemporaryFile_Inr [OF f]
  from s show "bucket self = b" and "key self = k" and m: "mode self = m"
    and p: "path self = b @ ''/'' @ k"
    by auto
  from s t have c: "\<not> tf_closed (tempfile self)" "tf_readable (tempfile self) = tf_readable f"
    "tf_writable (tempfile self) = tf_writable f" "tf_binary (tempfile self) = tf_binary f"
    by auto
  from s have "path self = bucket self @ ''/'' @ key self" by auto
  with c f m show "opened self" unfolding opened_def by simp
qed

lemma seek_keeps:
  "bucket (snd (seek offset whence self)) = bucket self"
  "key (snd (seek offset whence self)) = key self"
  "mode (snd (seek offset whence self)) = mode self"
  "path (snd (seek offset whence self)) = path self"
  by (simp_all add: seek_def tell_def split: sum.splits)

lemma close_keeps:
  assumes "close self w = (r, s, w')"
  shows "bucket s = bucket self" and "key s = key self" and "mode s = mode self"
    and "path s = path self"
proof -
  have k: "bucket (fst (snd (close_body self w))) = bucket self
      \<and> key (fst (snd (close_body self w))) = key self
      \<and> mode (fst (snd (close_body self w))) = mode self
      \<and> path (fst (snd (close_body self w))) = path self"
  proof (cases "writable self")
    case False
    then show ?thesis by (simp add: close_body_def)
  next
    case True
    obtain r1 s1 where s1: "seek 0 SEEK_SET self = (r1, s1)" by (cases "seek 0 SEEK_SET self")
    from seek_keeps [of 0 SEEK_SET self] s1
    have "bucket s1 = bucket self" "key s1 = key self" "mode s1 = mode self" "path s1 = path self"
      by simp_all
    with True s1 show ?thesis
      by (simp add: close_body_def split: sum.splits prod.splits option.splits)
  qed
  from assms have "s = (fst (snd (close_body self w)))\<lparr>tempfile := tf_close (tempfile (fst (snd (close_body self w))))\<rparr>"
    by (auto simp add: close_def split: prod.splits)
  with k show "bucket s = bucket self" and "key s = key self" and "mode s = mode self"
    and "path s = path self"
    by simp_all
qed

lemma writable_mode_cong: "mode s = mode self \<Longrightarrow> writable s = writable self"
  by (simp add: writable_def)

lemma readable_mode_cong: "mode s = mode self \<Longrightarrow> readable s = readable self"
  by (simp add: readable_def)

lemma init_failure_cases:
  assumes "S3File_init b k m w = (Inl (err, Some s), w')"
  shows "\<exists>f e r. TemporaryFile (updatable_mode m) = Inr f \<and> fetch_mode m
     \<and> (download_reply w = Inl e
          \<or> ((\<exists>body. download_reply w = Inr body) \<and> \<not> tf_writable f
              \<and> e = UnsupportedOperation ''not writable''))
     \<and> close \<lparr>bucket = b, key = k, mode = m, path = b @ ''/'' @ k, tempfile = f\<rparr>
              (w\<lparr>download_calls := download_calls w + 1\<rparr>) = (r, s, w')
     \<and> err = (case r of None \<Rightarrow> s3errors (b @ ''/'' @ k) e | Some e2 \<Rightarrow> e2)"
proof (cases "TemporaryFile (updatable_mode m)")
  case (Inl e)
  from init_rejected [OF Inl, of b k w] assms show ?thesis by simp
next
  case (Inr f)
  let ?c = "close \<lparr>bucket = b, key = k, mode = m, path = b @ ''/'' @ k, tempfile = f\<rparr>
              (w\<lparr>download_calls := download_calls w + 1\<rparr>)"
  obtain r s2 w2 where c: "?c = (r, s2, w2)" by (cases ?c)
  show ?thesis
  proof (cases "fetch_mode m")
    case False
    from init_not_fetch_mode [OF Inr False, of b k w] assms show ?thesis by simp
  next
    case True
    show ?thesis
    proof (cases "download_reply w")
      case (Inl e)
      from init_fetch_fault [OF Inr True Inl, of b k] assms c
      have "s2 = s \<and> w2 = w' \<and> err = (case r of None \<Rightarrow> s3errors (b @ ''/'' @ k) e | Some e2 \<Rightarrow> e2)"
        by (cases r) simp_all
      with Inr True Inl c show ?thesis by blast
    next
      case body: (Inr body)
      show ?thesis
      proof (cases "tf_writable f")
        case True
        from init_fetch_ok [OF Inr \<open>fetch_mode m\<close> body True, of b k] assms show ?thesis by simp
      next
        case False
        from init_fetch_unwritable [OF Inr \<open>fetch_mode m\<close> body False, of b k] assms c
        have "s2 = s \<and> w2 = w'
           \<and> err = (case r of None \<Rightarrow> s3errors (b @ ''/'' @ k) (UnsupportedOperation ''not writable'')
                     | Some e2 \<Rightarrow> e2)"
          by (cases r) simp_all
        with Inr \<open>fetch_mode m\<close> False c body show ?thesis by blast
      qed
    qed
  qed
qed

lemma close_unreadable:
  "writable self \<Longrightarrow> \<not> tf_closed (tempfile self) \<Longrightarrow> \<not> tf_readable (tempfile self) \<Longrightarrow>
   upload_reply w = None \<Longrightarrow>
   close self w =
     (Some (UnsupportedOperation ''not readable''),
      self\<lparr>tempfile := tf_close ((tempfile self)\<lparr>pos := 0\<rparr>)\<rparr>,
      w\<lparr>upload_calls := upload_calls w + 1\<rparr>)"
  by (simp add: close_def close_body_def seek_start upload_fileobj_def tf_read_def)

text \<open>\<^verbatim>\<open>close\<close> on a stream whose scratch file is still open, case by case.\<close>

lemma close_open:
  assumes "\<not> tf_closed (tempfile self)"
  shows "close self w =
    (if \<not> writable self then (None, self\<lparr>tempfile := tf_close (tempfile self)\<rparr>, w)
     else case upload_reply w of
       Some e \<Rightarrow> (Some (s3errors (path self) e),
                  self\<lparr>tempfile := tf_close ((tempfile self)\<lparr>pos := 0\<rparr>)\<rparr>,
                  w\<lparr>upload_calls := upload_calls w + 1\<rparr>)
     | None \<Rightarrow>
         if tf_readable (tempfile self)
         then (None,
               self\<lparr>tempfile := tf_close ((tempfile self)\<lparr>pos := length (content (tempfile self))\<rparr>)\<rparr>,
               w\<lparr>upload_calls := upload_calls w + 1,
                 uploaded := uploaded w @ [decoded (tempfile self) (content (tempfile self))]\<rparr>)
         else (Some (UnsupportedOperation ''not readable''),
               self\<lparr>tempfile := tf_close ((tempfile self)\<lparr>pos := 0\<rparr>)\<rparr>,
               w\<lparr>upload_calls := upload_calls w + 1\<rparr>))"
proof (cases "writable self")
  case False
  then show ?thesis by (simp add: close_not_writable)
next
  case True
  show ?thesis
  proof (cases "upload_reply w")
    case (Some e)
    with True assms show ?thesis by (simp add: close_upload_fault)
  next
    case None
    with True assms show ?thesis
      by (cases "tf_readable (tempfile self)") (simp_all add: close_upload_ok close_unreadable)
  qed
qed

lemma close_open_error:
  assumes "\<not> tf_closed (tempfile self)" "close self w = (Some err, s, w')"
  shows "\<exists>e0. err = s3errors (path self) e0
            \<and> (upload_reply w = Some e0 \<or> e0 = UnsupportedOperation ''not readable'')"
proof -
  from assms(2) close_not_writable [of self w] have wr: "writable self" by auto
  show ?thesis
  proof (cases "upload_reply w")
    case (Some e)
    with assms wr close_upload_fault [of self w e] show ?thesis by auto
  next
    case None
    show ?thesis
    proof (cases "tf_readable (tempfile self)")
      case True
      with None assms wr close_upload_ok [of self w] show ?thesis by simp
    next
      case False
      with None assms wr close_unreadable [of self w]
      have "err = UnsupportedOperation ''not readable''" by simp
      then have "err = s3errors (path self) (UnsupportedOperation ''not readable'')" by simp
      then show ?thesis by blast
    qed
  qed
qed

lemma init_failure_error:
  assumes "S3File_init b k m w = (Inl (err, Some s), w')"
  shows "\<exists>e0. err = s3errors (b @ ''/'' @ k) e0
            \<and> (download_reply w = Inl e0 \<or> upload_reply w = Some e0
                \<or> e0 = UnsupportedOperation ''not writable''
                \<or> e0 = UnsupportedOperation ''not readable'')"
proof -
  let ?self = "\<lparr>bucket = b, key = k, mode = m, path = b @ ''/'' @ k, tempfile = f\<rparr>"
  from init_failure_cases [OF assms] obtain f e r where
    f: "TemporaryFile (updatable_mode m) = Inr f" and
    e: "download_reply w = Inl e \<or> e = UnsupportedOperation ''not writable''" and
    c: "close \<lparr>bucket = b, key = k, mode = m, path = b @ ''/'' @ k, tempfile = f\<rparr>
              (w\<lparr>download_calls := download_calls w + 1\<rparr>) = (r, s, w')" and
    err: "err = (case r of None \<Rightarrow> s3errors (b @ ''/'' @ k) e | Some e2 \<Rightarrow> e2)"
    by blast
  show ?thesis
  proof (cases r)
    case None
    with err e show ?thesis by auto
  next
    case (Some e2)
    from TemporaryFile_Inr [OF f] have
      o: "\<not> tf_closed (tempfile \<lparr>bucket = b, key = k, mode = m, path = b @ ''/'' @ k, tempfile = f\<rparr>)"
      by simp
    from close_open_error [OF o c [unfolded Some]] Some err show ?thesis by auto
  qed
qed

lemmas model_defs =
  S3File_init_def init_body_def fetch_and_seek_def close_def close_body_def
  download_fileobj_def upload_fileobj_def
  TemporaryFile_def updatable_mode_def readable_def writable_def
  seek_def tell_def read_def readinto_def readline_def readlines_def
  write_to_def writelines_def truncate_def is_closed_def
  tf_write_def tf_read_def tf_readline_def tf_readlines_def tf_readinto_def
  tf_seek_def tf_tell_def tf_truncate_def tf_close_def
  invalid_mode_msg_def closed_file_msg_def NUL_def newline_def carriage_return_def
  decoded_def advance_def
  store0_def opened_def fetch_mode_def Let_def

section \<open>C1: error translation\<close>

lemma path_of_s3errors: "is_store_failure e \<Longrightarrow> path_of (s3errors p e) = Some p"
  by (cases e) (simp_all add: Let_def)

text \<open>
  C1. A failure of the store client in a wrapped download or upload is translated in
  this order: a \<^verbatim>\<open>NoSuchBucket\<close> error code gives the permission-denied kind whatever the
  HTTP status is; otherwise status 404 gives not-found; status 403 gives
  permission-denied; any other status gives unsupported; an SSL failure gives
  unsupported; an unreachable endpoint gives timed-out. The translated error carries the
  path it was given, and the stream gives its own path, bucket + "/" + key: the error
  of a failed construction and the error of a failed close are the translation, with
  that path, of what the store (or the scratch file, which is not translated) raised.
\<close>

theorem s3errors_precedence_and_path:
  "kind_of (s3errors p (ClientError (Some ''NoSuchBucket'') st)) = Some PermissionDenied
   \<and> (c \<noteq> Some ''NoSuchBucket'' \<longrightarrow>
        kind_of (s3errors p (ClientError c (Some 404))) = Some NotFound)
   \<and> (c \<noteq> Some ''NoSuchBucket'' \<longrightarrow>
        kind_of (s3errors p (ClientError c (Some 403))) = Some PermissionDenied)
   \<and> (c \<noteq> Some ''NoSuchBucket'' \<longrightarrow> st \<noteq> Some 404 \<longrightarrow> st \<noteq> Some 403 \<longrightarrow>
        kind_of (s3errors p (ClientError c st)) = Some Unsupported)
   \<and> kind_of (s3errors p SSLError) = Some Unsupported
   \<and> kind_of (s3errors p EndpointConnectionError) = Some TimedOut
   \<and> (is_store_failure e \<longrightarrow> path_of (s3errors p e) = Some p)
   \<and> (S3File_init b k m w = (Inl (err, Some s), w') \<longrightarrow>
        (\<exists>e0. err = s3errors (b @ ''/'' @ k) e0
           \<and> (download_reply w = Inl e0 \<or> upload_reply w = Some e0
               \<or> e0 = UnsupportedOperation ''not writable''
               \<or> e0 = UnsupportedOperation ''not readable'')))
   \<and> (opened self \<longrightarrow> close self w = (Some err, s, w') \<longrightarrow>
        (\<exists>e0. err = s3errors (bucket self @ ''/'' @ key self) e0
           \<and> (upload_reply w = Some e0 \<or> e0 = UnsupportedOperation ''not readable'')))"
proof -
  have k4: "c \<noteq> Some ''NoSuchBucket'' \<Longrightarrow> st \<noteq> Some 404 \<Longrightarrow> st \<noteq> Some 403 \<Longrightarrow>
        kind_of (s3errors p (ClientError c st)) = Some Unsupported"
    by (cases st) (simp_all add: Let_def)
  have cl: "opened self \<Longrightarrow> close self w = (Some err, s, w') \<Longrightarrow>
        (\<exists>e0. err = s3errors (bucket self @ ''/'' @ key self) e0
           \<and> (upload_reply w = Some e0 \<or> e0 = UnsupportedOperation ''not readable''))"
    using close_open_error [of self w err s w'] opened_not_closed [of self] opened_path [of self]
    by simp
  show ?thesis
    using k4 cl init_failure_error [of b k m w err s w'] path_of_s3errors [of e p]
    by (simp add: Let_def)
qed

theorem s3errors_precedence_and_path_witness:
  "Some ''AccessDenied'' \<noteq> Some ''NoSuchBucket''
   \<and> Some (500::int) \<noteq> Some 404 \<and> Some (500::int) \<noteq> Some 403
   \<and> kind_of (s3errors ''bk/k'' (ClientError (Some ''NoSuchBucket'') (Some 404))) = Some PermissionDenied
   \<and> kind_of (s3errors ''bk/k'' (ClientError (Some ''AccessDenied'') (Some 404))) = Some NotFound
   \<and> kind_of (s3errors ''bk/k'' (ClientError (Some ''AccessDenied'') (Some 403))) = Some PermissionDenied
   \<and> kind_of (s3errors ''bk/k'' (ClientError (Some ''AccessDenied'') (Some 500))) = Some Unsupported
   \<and> is_store_failure EndpointConnectionError
   \<and> path_of (s3errors ''bk/k'' EndpointConnectionError) = Some ''bk/k''
   \<and> S3File_init ''bk'' ''k'' ''r'' (store0\<lparr>download_reply := Inl EndpointConnectionError\<rparr>)
       = (Inl (IOError ETIMEDOUT (Some ''bk/k''),
               Some \<lparr>bucket = ''bk'', key = ''k'', mode = ''r'', path = ''bk/k'',
                     tempfile = \<lparr>content = [], pos = 0, tf_closed = True, tf_readable = True,
                                  tf_writable = True, tf_binary = False\<rparr>\<rparr>),
          store0\<lparr>download_reply := Inl EndpointConnectionError, download_calls := 1\<rparr>)
   \<and> (\<exists>e0. IOError ETIMEDOUT (Some ''bk/k'') = s3errors (''bk'' @ ''/'' @ ''k'') e0
         \<and> (download_reply (store0\<lparr>download_reply := Inl EndpointConnectionError\<rparr>) = Inl e0
             \<or> upload_reply (store0\<lparr>download_reply := Inl EndpointConnectionError\<rparr>) = Some e0
             \<or> e0 = UnsupportedOperation ''not writable''
             \<or> e0 = UnsupportedOperation ''not readable''))
   \<and> opened \<lparr>bucket = ''bk'', key = ''k'', mode = ''w'', path = ''bk/k'',
               tempfile = \<lparr>content = ''x'', pos = 1, tf_closed = False, tf_readable = True,
                            tf_writable = True, tf_binary = False\<rparr>\<rparr>
   \<and> close \<lparr>bucket = ''bk'', key = ''k'', mode = ''w'', path = ''bk/k'',
               tempfile = \<lparr>content = ''x'', pos = 1, tf_closed = False, tf_readable = True,
                            tf_writable = True, tf_binary = False\<rparr>\<rparr>
             (store0\<lparr>upload_reply := Some SSLError\<rparr>)
       = (Some (IOError EOPNOTSUPP (Some ''bk/k'')),
          \<lparr>bucket = ''bk'', key = ''k'', mode = ''w'', path = ''bk/k'',
               tempfile = \<lparr>content = ''x'', pos = 0, tf_closed = True, tf_readable = True,
                            tf_writable = True, tf_binary = False\<rparr>\<rparr>,
          store0\<lparr>upload_reply := Some SSLError, upload_calls := 1\<rparr>)
   \<and> (\<exists>e0. IOError EOPNOTSUPP (Some ''bk/k'') = s3errors (''bk'' @ ''/'' @ ''k'') e0
         \<and> (upload_reply (store0\<lparr>upload_reply := Some SSLError\<rparr>) = Some e0
             \<or> e0 = UnsupportedOperation ''not readable''))"
proof -
  let ?s = "\<lparr>bucket = ''bk'', key = ''k'', mode = ''w'', path = ''bk/k'',
               tempfile = \<lparr>content = ''x'', pos = 1, tf_closed = False, tf_readable = True,
                            tf_writable = True, tf_binary = False\<rparr>\<rparr>"
  have o: "opened ?s" by (simp add: model_defs)
  have c: "close ?s (store0\<lparr>upload_reply := Some SSLError\<rparr>)
       = (Some (IOError EOPNOTSUPP (Some ''bk/k'')),
          \<lparr>bucket = ''bk'', key = ''k'', mode = ''w'', path = ''bk/k'',
               tempfile = \<lparr>content = ''x'', pos = 0, tf_closed = True, tf_readable = True,
                            tf_writable = True, tf_binary = False\<rparr>\<rparr>,
          store0\<lparr>upload_reply := Some SSLError, upload_calls := 1\<rparr>)"
    by (simp add: model_defs)
  have i: "S3File_init ''bk'' ''k'' ''r'' (store0\<lparr>download_reply := Inl EndpointConnectionError\<rparr>)
       = (Inl (IOError ETIMEDOUT (Some ''bk/k''),
               Some \<lparr>bucket = ''bk'', key = ''k'', mode = ''r'', path = ''bk/k'',
                     tempfile = \<lparr>content = [], pos = 0, tf_closed = True, tf_readable = True,
                                  tf_writable = True, tf_binary = False\<rparr>\<rparr>),
          store0\<lparr>download_reply := Inl EndpointConnectionError, download_calls := 1\<rparr>)"
    by (simp add: model_defs)
  have h: "Some ''AccessDenied'' \<noteq> Some ''NoSuchBucket''" "Some (500::int) \<noteq> Some 404"
    "Some (500::int) \<noteq> Some 403" "is_store_failure EndpointConnectionError"
    by simp_all
  from s3errors_precedence_and_path [of "''bk/k''" "Some 404" "Some ''AccessDenied''"
      EndpointConnectionError "''bk''" "''k''" "''r''"
      "store0\<lparr>download_reply := Inl EndpointConnectionError\<rparr>"]
    s3errors_precedence_and_path [of "''bk/k''" "Some 500" "Some ''AccessDenied''"
      EndpointConnectionError "''bk''" "''k''" "''r''"
      "store0\<lparr>download_reply := Inl EndpointConnectionError\<rparr>"
      "IOError ETIMEDOUT (Some ''bk/k'')"
      "\<lparr>bucket = ''bk'', key = ''k'', mode = ''r'', path = ''bk/k'',
                     tempfile = \<lparr>content = [], pos = 0, tf_closed = True, tf_readable = True,
                                  tf_writable = True, tf_binary = False\<rparr>\<rparr>"
      "store0\<lparr>download_reply := Inl EndpointConnectionError, download_calls := 1\<rparr>"]
    s3errors_precedence_and_path [of "''bk/k''" "Some 500" "Some ''AccessDenied''"
      EndpointConnectionError "''bk''" "''k''" "''r''"
      "store0\<lparr>upload_reply := Some SSLError\<rparr>"
      "IOError EOPNOTSUPP (Some ''bk/k'')"
      "\<lparr>bucket = ''bk'', key = ''k'', mode = ''w'', path = ''bk/k'',
               tempfile = \<lparr>content = ''x'', pos = 0, tf_closed = True, tf_readable = True,
                            tf_writable = True, tf_binary = False\<rparr>\<rparr>"
      "store0\<lparr>upload_reply := Some SSLError, upload_calls := 1\<rparr>" ?s]
    i h o c
  show ?thesis by (simp only: S3File.simps) blast
qed

section \<open>C4: mode tokens the scratch file rejects\<close>

lemma distinct_count_le_1: "distinct xs \<Longrightarrow> count_list xs c \<le> 1"
  by (induction xs) auto

lemma distinct_count_of_bool: "distinct xs \<Longrightarrow> count_list xs c = of_bool (c \<in> set xs)"
  by (induction xs) auto

lemma count_le_1_distinct: "(\<And>c. c \<in> set xs \<Longrightarrow> count_list xs c \<le> 1) \<Longrightarrow> distinct xs"
proof (induction xs)
  case Nil
  show ?case by simp
next
  case (Cons x xs)
  from Cons.prems [of x] have "count_list xs x = 0" by simp
  then have nx: "x \<notin> set xs" by (simp add: count_list_0_iff)
  have "\<And>c. c \<in> set xs \<Longrightarrow> count_list xs c \<le> 1"
  proof -
    fix c assume c: "c \<in> set xs"
    with Cons.prems [of c] show "count_list xs c \<le> 1" by (simp split: if_splits)
  qed
  with Cons.IH nx show ?case by simp
qed

lemma remdups_length_distinct: "\<not> length (remdups xs) < length xs \<Longrightarrow> distinct xs"
  by (metis distinct_remdups length_remdups_leq order.order_iff_strict length_remdups_eq)

lemma if_chain4_Inr:
  "(\<exists>f. (if A then Inl x else if B then Inl x else if C then Inl x else if D then Inl x
         else Inr y) = Inr f) \<longleftrightarrow> \<not> A \<and> \<not> B \<and> \<not> C \<and> \<not> D"
  by simp

text \<open>What the mode check of the scratch file accepts.\<close>

lemma TemporaryFile_accepts:
  "(\<exists>f. TemporaryFile u = Inr f) \<longleftrightarrow>
     set u \<subseteq> set ''axrwb+t'' \<and> distinct u
     \<and> \<not> (CHR ''t'' \<in> set u \<and> CHR ''b'' \<in> set u)
     \<and> (of_bool (CHR ''x'' \<in> set u) + of_bool (CHR ''r'' \<in> set u)
         + of_bool (CHR ''w'' \<in> set u) + of_bool (CHR ''a'' \<in> set u) = (1::nat))"
proof -
  let ?n = "of_bool (CHR ''x'' \<in> set u) + of_bool (CHR ''r'' \<in> set u)
         + of_bool (CHR ''w'' \<in> set u) + of_bool (CHR ''a'' \<in> set u) :: nat"
  have d: "distinct u \<longleftrightarrow> \<not> length (remdups u) < length u"
    using remdups_length_distinct [of u] by (auto simp add: distinct_remdups_id)
  have n: "?n = 1 \<longleftrightarrow> \<not> 1 < ?n \<and> (CHR ''x'' \<in> set u \<or> CHR ''r'' \<in> set u
       \<or> CHR ''w'' \<in> set u \<or> CHR ''a'' \<in> set u)"
    by (simp add: of_bool_def)
  have "(\<exists>f. TemporaryFile u = Inr f) \<longleftrightarrow>
      \<not> (\<not> set u \<subseteq> set ''axrwb+t'' \<or> length u > length (remdups u))
      \<and> \<not> (CHR ''t'' \<in> set u \<and> CHR ''b'' \<in> set u)
      \<and> \<not> 1 < ?n
      \<and> \<not> \<not> (CHR ''x'' \<in> set u \<or> CHR ''r'' \<in> set u
       \<or> CHR ''w'' \<in> set u \<or> CHR ''a'' \<in> set u)"
    unfolding TemporaryFile_def Let_def by (rule if_chain4_Inr)
  with d n show ?thesis by blast
qed

lemma accepted_recognized:
  assumes "TemporaryFile u = Inr f"
  shows "recognized_mode u"
proof -
  from assms TemporaryFile_accepts [of u] have
    s: "set u \<subseteq> set ''axrwb+t''" and d: "distinct u" and
    tb: "\<not> (CHR ''t'' \<in> set u \<and> CHR ''b'' \<in> set u)" and
    n: "of_bool (CHR ''x'' \<in> set u) + of_bool (CHR ''r'' \<in> set u)
         + of_bool (CHR ''w'' \<in> set u) + of_bool (CHR ''a'' \<in> set u) = (1::nat)"
    by blast+
  have s': "set u \<subseteq> set ''rwax+bt''" using s by auto
  note c = distinct_count_of_bool [OF d]
  have p: "count_list u (CHR ''+'') \<le> 1" by (rule distinct_count_le_1 [OF d])
  have m: "count_list u (CHR ''b'') + count_list u (CHR ''t'') \<le> 1"
    unfolding c using tb by (simp add: of_bool_def)
  have q: "count_list u (CHR ''r'') + count_list u (CHR ''w'')
         + count_list u (CHR ''a'') + count_list u (CHR ''x'') = 1"
    unfolding c using n by simp
  from s' p m q show ?thesis unfolding recognized_mode_def by blast
qed

lemma updatable_mode_cases:
  "updatable_mode m = m
   \<or> (\<exists>g1 rest. m = g1 @ rest \<and> updatable_mode m = g1 @ ''+'' @ rest \<and> g1 \<noteq> []
        \<and> set g1 \<subseteq> set ''rwa''
        \<and> (rest = [] \<or> rest = ''b'' \<or> rest = [newline] \<or> rest = ''b'' @ [newline]))"
proof -
  let ?P = "\<lambda>c. c \<in> set ''rwa''"
  have i: "m = takeWhile ?P m @ dropWhile ?P m" by simp
  have g: "set (takeWhile ?P m) \<subseteq> set ''rwa''"
    using set_takeWhileD [of _ ?P m] by blast
  let ?C = "takeWhile ?P m \<noteq> [] \<and> (dropWhile ?P m = [] \<or> dropWhile ?P m = ''b''
        \<or> dropWhile ?P m = [newline] \<or> dropWhile ?P m = ''b'' @ [newline])"
  show ?thesis
  proof (cases ?C)
    case False
    have "updatable_mode m = m"
      unfolding updatable_mode_def Let_def by (simp only: False if_False)
    then show ?thesis by blast
  next
    case True
    have "updatable_mode m = takeWhile ?P m @ ''+'' @ dropWhile ?P m"
      unfolding updatable_mode_def Let_def by (simp only: True if_True simp_thms)
    with i g True show ?thesis by blast
  qed
qed

lemma count_updatable_mode:
  "c \<noteq> CHR ''+'' \<Longrightarrow> count_list (updatable_mode m) c = count_list m c"
  "count_list m (CHR ''+'') \<le> count_list (updatable_mode m) (CHR ''+'')"
  using updatable_mode_cases [of m] by auto

lemma set_updatable_mode_sup: "set m \<subseteq> set (updatable_mode m)"
  using set_updatable_mode [of m] by blast

lemma recognized_updatable:
  assumes "recognized_mode (updatable_mode m)"
  shows "recognized_mode m"
proof -
  let ?u = "updatable_mode m"
  from assms have s: "set ?u \<subseteq> set ''rwax+bt''"
    and q: "count_list ?u (CHR ''r'') + count_list ?u (CHR ''w'')
         + count_list ?u (CHR ''a'') + count_list ?u (CHR ''x'') = 1"
    and p: "count_list ?u (CHR ''+'') \<le> 1"
    and b: "count_list ?u (CHR ''b'') + count_list ?u (CHR ''t'') \<le> 1"
    unfolding recognized_mode_def by blast+
  have s': "set m \<subseteq> set ''rwax+bt''" using s set_updatable_mode_sup [of m] by blast
  have q': "count_list m (CHR ''r'') + count_list m (CHR ''w'')
         + count_list m (CHR ''a'') + count_list m (CHR ''x'') = 1"
    using q by (simp add: count_updatable_mode(1))
  have p': "count_list m (CHR ''+'') \<le> 1"
    using p count_updatable_mode(2) [of m] by linarith
  have b': "count_list m (CHR ''b'') + count_list m (CHR ''t'') \<le> 1"
    using b by (simp add: count_updatable_mode(1))
  from s' q' p' b' show ?thesis unfolding recognized_mode_def by blast
qed

lemma unrecognized_rejected:
  assumes "\<not> recognized_mode m"
  shows "TemporaryFile (updatable_mode m) = Inl (ValueError invalid_mode_msg)"
proof -
  have "TemporaryFile (updatable_mode m) \<noteq> Inr f" for f
    using accepted_recognized [of "updatable_mode m" f] recognized_updatable [of m] assms by blast
  with TemporaryFile_cases [of "updatable_mode m"] show ?thesis by blast
qed

text \<open>
  C4. A mode token that matches none of the recognised forms is rejected with the
  invalid-mode failure: the constructor raises it when it creates the scratch file,
  before its \<^verbatim>\<open>try\<close> body; no object exists and the store has not been called (it is
  returned as it was).
\<close>

theorem unrecognized_mode_is_invalid:
  "\<not> recognized_mode m \<Longrightarrow>
   S3File_init b k m w = (Inl (ValueError invalid_mode_msg, None), w)
   \<and> kind_of (ValueError invalid_mode_msg) = Some InvalidMode"
  using unrecognized_rejected [of m] init_rejected [of m "ValueError invalid_mode_msg" b k w]
  by simp

theorem unrecognized_mode_is_invalid_witness:
  "\<not> recognized_mode ''z''
   \<and> S3File_init ''test-bucket'' ''path/to/doc.txt'' ''z'' store0
       = (Inl (ValueError invalid_mode_msg, None), store0)
   \<and> download_calls store0 = 0"
proof -
  have h: "\<not> recognized_mode ''z''" by (simp add: recognized_mode_def)
  from unrecognized_mode_is_invalid [OF h, of "''test-bucket''" "''path/to/doc.txt''" store0] h
  show ?thesis by (simp add: store0_def)
qed

subsection \<open>The scratch file accepts exactly the recognised tokens\<close>

lemma recognized_accepted0:
  assumes "recognized_mode u"
  shows "\<exists>f. TemporaryFile u = Inr f"
proof -
  from assms have s: "set u \<subseteq> set ''rwax+bt''"
    and q: "count_list u (CHR ''r'') + count_list u (CHR ''w'')
         + count_list u (CHR ''a'') + count_list u (CHR ''x'') = 1"
    and p: "count_list u (CHR ''+'') \<le> 1"
    and b: "count_list u (CHR ''b'') + count_list u (CHR ''t'') \<le> 1"
    unfolding recognized_mode_def by blast+
  have s': "set u \<subseteq> set ''axrwb+t''" using s by auto
  have le: "count_list u (CHR ''r'') \<le> 1" "count_list u (CHR ''w'') \<le> 1"
    "count_list u (CHR ''a'') \<le> 1" "count_list u (CHR ''x'') \<le> 1"
    "count_list u (CHR ''b'') \<le> 1" "count_list u (CHR ''t'') \<le> 1"
    using q b by linarith+
  have d: "distinct u"
  proof (rule count_le_1_distinct)
    fix c assume "c \<in> set u"
    with s have "c \<in> set ''rwax+bt''" by blast
    then have "c = CHR ''r'' \<or> c = CHR ''w'' \<or> c = CHR ''a'' \<or> c = CHR ''x''
       \<or> c = CHR ''+'' \<or> c = CHR ''b'' \<or> c = CHR ''t''"
      by simp
    with le p show "count_list u c \<le> 1" by blast
  qed
  note c = distinct_count_of_bool [OF d]
  have tb: "\<not> (CHR ''t'' \<in> set u \<and> CHR ''b'' \<in> set u)"
  proof
    assume "CHR ''t'' \<in> set u \<and> CHR ''b'' \<in> set u"
    then have "count_list u (CHR ''b'') + count_list u (CHR ''t'') = 2"
      unfolding c by simp
    with b show False by linarith
  qed
  have n: "of_bool (CHR ''x'' \<in> set u) + of_bool (CHR ''r'' \<in> set u)
         + of_bool (CHR ''w'' \<in> set u) + of_bool (CHR ''a'' \<in> set u) = (1::nat)"
    using q unfolding c by simp
  from s' d tb n TemporaryFile_accepts [of u] show ?thesis by blast
qed

lemma updatable_recognized:
  assumes "recognized_mode m"
  shows "recognized_mode (updatable_mode m)"
proof -
  let ?u = "updatable_mode m"
  from assms have s: "set m \<subseteq> set ''rwax+bt''"
    and q: "count_list m (CHR ''r'') + count_list m (CHR ''w'')
         + count_list m (CHR ''a'') + count_list m (CHR ''x'') = 1"
    and p: "count_list m (CHR ''+'') \<le> 1"
    and b: "count_list m (CHR ''b'') + count_list m (CHR ''t'') \<le> 1"
    unfolding recognized_mode_def by blast+
  have pl: "CHR ''+'' \<in> set ''rwax+bt''" by simp
  from set_updatable_mode [of m] have "set ?u \<subseteq> insert (CHR ''+'') (set m)"
    by (elim disjE) (simp_all only: subset_insertI subset_refl)
  with s pl have s': "set ?u \<subseteq> set ''rwax+bt''"
    by (meson insert_subset subset_trans)
  have q': "count_list ?u (CHR ''r'') + count_list ?u (CHR ''w'')
         + count_list ?u (CHR ''a'') + count_list ?u (CHR ''x'') = 1"
    using q by (simp add: count_updatable_mode(1))
  have b': "count_list ?u (CHR ''b'') + count_list ?u (CHR ''t'') \<le> 1"
    using b by (simp add: count_updatable_mode(1))
  have p': "count_list ?u (CHR ''+'') \<le> 1"
  proof (cases "?u = m")
    case True
    with p show ?thesis by simp
  next
    case False
    with updatable_mode_cases [of m] obtain g1 rest where
      m: "m = g1 @ rest" and u: "?u = g1 @ ''+'' @ rest" and g: "set g1 \<subseteq> set ''rwa''"
      and r: "rest = [] \<or> rest = ''b'' \<or> rest = [newline] \<or> rest = ''b'' @ [newline]"
      by blast
    from g have "CHR ''+'' \<notin> set g1" by auto
    then have g0: "count_list g1 (CHR ''+'') = 0" by simp
    from r have r0: "count_list rest (CHR ''+'') = 0" by (auto simp add: newline_def)
    show ?thesis unfolding u using g0 r0 by simp
  qed
  from s' q' p' b' show ?thesis unfolding recognized_mode_def by blast
qed

lemma accepted_iff_recognized:
  "(\<exists>f. TemporaryFile (updatable_mode m) = Inr f) \<longleftrightarrow> recognized_mode m"
  using recognized_accepted0 [of "updatable_mode m"] updatable_recognized [of m]
    accepted_recognized [of "updatable_mode m"] recognized_updatable [of m]
  by blast

section \<open>C10: capabilities and the fetch are decided by the characters of the token\<close>

lemma close_open_download_calls:
  "\<not> tf_closed (tempfile self) \<Longrightarrow> download_calls (snd (snd (close self w))) = download_calls w"
  by (simp add: close_open split: option.splits)

lemma init_download_calls:
  "download_calls (snd (S3File_init b k m w)) =
     download_calls w + (if recognized_mode m \<and> fetch_mode m then 1 else 0)"
proof (cases "recognized_mode m")
  case False
  with unrecognized_rejected [of m] init_rejected [of m _ b k w] show ?thesis by simp
next
  case True
  with accepted_iff_recognized [of m] obtain f where f: "TemporaryFile (updatable_mode m) = Inr f"
    by blast
  let ?self = "\<lparr>bucket = b, key = k, mode = m, path = b @ ''/'' @ k, tempfile = f\<rparr>"
  let ?w1 = "w\<lparr>download_calls := download_calls w + 1\<rparr>"
  from TemporaryFile_Inr [OF f] have o: "\<not> tf_closed (tempfile ?self)" by simp
  have c: "download_calls (snd (snd (close ?self ?w1))) = download_calls w + 1"
    using close_open_download_calls [OF o, of ?w1] by simp
  show ?thesis
  proof (cases "fetch_mode m")
    case False
    with True init_not_fetch_mode [OF f False, of b k w] show ?thesis by simp
  next
    case fm: True
    show ?thesis
    proof (cases "download_reply w")
      case (Inl e)
      from init_fetch_fault [OF f fm Inl, of b k] c True fm show ?thesis
        by (simp split: prod.splits option.splits)
    next
      case (Inr body)
      show ?thesis
      proof (cases "tf_writable f")
        case wr: True
        from init_fetch_ok [OF f fm Inr wr, of b k] True fm show ?thesis by simp
      next
        case wr: False
        from init_fetch_unwritable [OF f fm Inr wr, of b k] c True fm show ?thesis
          by (simp split: prod.splits option.splits)
      qed
    qed
  qed
qed

text \<open>
  C10, as the code has it. For every mode string \<^verbatim>\<open>readable()\<close> holds exactly when
  the string contains \<open>r\<close> or \<open>+\<close>, and \<^verbatim>\<open>writable()\<close> exactly when it contains
  \<open>w\<close>, \<open>a\<close>, \<open>+\<close> or \<open>x\<close>. The constructor downloads exactly when the scratch
  file accepts the token, which is when the token is a recognised one, and the string
  contains \<open>a\<close> or none of \<open>a\<close>, \<open>w\<close>, \<open>x\<close>. A token that is not recognised
  constructs no stream: the scratch file rejects it before any download.
\<close>

theorem capabilities_and_fetch_by_membership:
  "readable self = (CHR ''r'' \<in> set (mode self) \<or> CHR ''+'' \<in> set (mode self))
   \<and> writable self = (CHR ''w'' \<in> set (mode self) \<or> CHR ''a'' \<in> set (mode self)
                        \<or> CHR ''+'' \<in> set (mode self) \<or> CHR ''x'' \<in> set (mode self))
   \<and> (S3File_init b k m w = (Inr s, w') \<longrightarrow> mode s = m)
   \<and> download_calls (snd (S3File_init b k m w)) =
        download_calls w
        + (if recognized_mode m
              \<and> (CHR ''a'' \<in> set m
                  \<or> (CHR ''a'' \<notin> set m \<and> CHR ''w'' \<notin> set m \<and> CHR ''x'' \<notin> set m))
           then 1 else 0)
   \<and> (\<not> recognized_mode m \<longrightarrow>
        S3File_init b k m w = (Inl (ValueError invalid_mode_msg, None), w))"
  using init_download_calls [of b k m w] init_success_opened(4) [of b k m w s w']
    unrecognized_rejected [of m] init_rejected [of m "ValueError invalid_mode_msg" b k w]
  by (simp add: readable_def writable_def fetch_mode_def)

theorem capabilities_and_fetch_by_membership_witness:
  "S3File_init ''bk'' ''k'' ''r'' store0
     = (Inr \<lparr>bucket = ''bk'', key = ''k'', mode = ''r'', path = ''bk/k'',
              tempfile = \<lparr>content = ''Four score'', pos = 0, tf_closed = False,
                           tf_readable = True, tf_writable = True, tf_binary = False\<rparr>\<rparr>,
        store0\<lparr>download_calls := 1\<rparr>)
   \<and> recognized_mode ''r''
   \<and> download_calls (snd (S3File_init ''bk'' ''k'' ''r'' store0)) = download_calls store0 + 1
   \<and> \<not> recognized_mode ''z''
   \<and> S3File_init ''bk'' ''k'' ''z'' store0 = (Inl (ValueError invalid_mode_msg, None), store0)
   \<and> download_calls (snd (S3File_init ''bk'' ''k'' ''z'' store0)) = download_calls store0"
proof -
  have i: "S3File_init ''bk'' ''k'' ''r'' store0
     = (Inr \<lparr>bucket = ''bk'', key = ''k'', mode = ''r'', path = ''bk/k'',
              tempfile = \<lparr>content = ''Four score'', pos = 0, tf_closed = False,
                           tf_readable = True, tf_writable = True, tf_binary = False\<rparr>\<rparr>,
        store0\<lparr>download_calls := 1\<rparr>)"
    by (simp add: model_defs)
  have r: "recognized_mode ''r''" and z: "\<not> recognized_mode ''z''"
    by (simp_all add: recognized_mode_def)
  from capabilities_and_fetch_by_membership [of _ "''bk''" "''k''" "''r''" store0] r
  have a: "download_calls (snd (S3File_init ''bk'' ''k'' ''r'' store0)) = download_calls store0 + 1"
    by simp
  from capabilities_and_fetch_by_membership [of _ "''bk''" "''k''" "''z''" store0] z
  have b: "S3File_init ''bk'' ''k'' ''z'' store0 = (Inl (ValueError invalid_mode_msg, None), store0)"
    "download_calls (snd (S3File_init ''bk'' ''k'' ''z'' store0)) = download_calls store0"
    by simp_all
  from i r z a b show ?thesis by blast
qed

text \<open>
  C10 as the specification words it fails at the token \<open>z\<close>: the constructor raises, no
  stream is constructed and nothing is downloaded.
\<close>

theorem unrecognized_token_constructs_nothing:
  "fst (S3File_init ''test-bucket'' ''path/to/doc.txt'' ''z'' store0)
     = Inl (ValueError invalid_mode_msg, None)
   \<and> download_calls (snd (S3File_init ''test-bucket'' ''path/to/doc.txt'' ''z'' store0)) = 0"
  by (simp add: model_defs)

section \<open>C3: closing twice\<close>

lemma tf_close_closed: "tf_closed f \<Longrightarrow> tf_close f = f"
  by (simp add: tf_close_def)

lemma close_closed:
  "tf_closed (tempfile self) \<Longrightarrow>
   close self w = ((if writable self then Some (ValueError closed_file_msg) else None), self, w)"
  by (simp add: close_closed_writable close_not_writable tf_close_closed)

lemma close_open_result:
  assumes "\<not> tf_closed (tempfile self)"
  shows "tf_closed (tempfile (fst (snd (close self w))))"
    and "mode (fst (snd (close self w))) = mode self"
    and "upload_calls (snd (snd (close self w))) = upload_calls w + (if writable self then 1 else 0)"
  using assms by (simp_all add: close_open tf_close_def split: option.splits)

text \<open>
  C3, as the code has it. Closing an open stream twice makes exactly one upload call
  when the stream is writable and none when it is not; the second \<^verbatim>\<open>close\<close> calls the
  store no more and changes neither the stream nor the store. It raises nothing when
  the stream is not writable; when the stream is writable it raises the
  \<^verbatim>\<open>ValueError\<close> of a seek on the closed scratch file.
\<close>

theorem close_twice:
  assumes "opened self"
  shows "upload_calls (snd (snd (close (fst (snd (close self w))) (snd (snd (close self w))))))
           = upload_calls w + (if writable self then 1 else 0)
         \<and> close (fst (snd (close self w))) (snd (snd (close self w)))
           = ((if writable self then Some (ValueError closed_file_msg) else None),
              fst (snd (close self w)), snd (snd (close self w)))
         \<and> is_closed (fst (snd (close self w)))"
proof -
  let ?s1 = "fst (snd (close self w))"
  let ?w1 = "snd (snd (close self w))"
  from assms have o: "\<not> tf_closed (tempfile self)" by (rule opened_not_closed)
  note r = close_open_result [OF o, of w]
  from r(2) have wr: "writable ?s1 = writable self" by (rule writable_mode_cong)
  have c2: "close ?s1 ?w1 = ((if writable self then Some (ValueError closed_file_msg) else None), ?s1, ?w1)"
    using close_closed [OF r(1), of ?w1] wr by simp
  from c2 r(1,3) show ?thesis by (simp add: is_closed_def)
qed

theorem close_twice_witness:
  "opened \<lparr>bucket = ''bk'', key = ''k'', mode = ''r'', path = ''bk/k'',
           tempfile = \<lparr>content = ''Four score'', pos = 0, tf_closed = False,
                        tf_readable = True, tf_writable = True, tf_binary = False\<rparr>\<rparr>
   \<and> close \<lparr>bucket = ''bk'', key = ''k'', mode = ''r'', path = ''bk/k'',
           tempfile = \<lparr>content = ''Four score'', pos = 0, tf_closed = False,
                        tf_readable = True, tf_writable = True, tf_binary = False\<rparr>\<rparr> store0
       = (None,
          \<lparr>bucket = ''bk'', key = ''k'', mode = ''r'', path = ''bk/k'',
           tempfile = \<lparr>content = ''Four score'', pos = 0, tf_closed = True,
                        tf_readable = True, tf_writable = True, tf_binary = False\<rparr>\<rparr>,
          store0)
   \<and> close \<lparr>bucket = ''bk'', key = ''k'', mode = ''r'', path = ''bk/k'',
           tempfile = \<lparr>content = ''Four score'', pos = 0, tf_closed = True,
                        tf_readable = True, tf_writable = True, tf_binary = False\<rparr>\<rparr> store0
       = (None,
          \<lparr>bucket = ''bk'', key = ''k'', mode = ''r'', path = ''bk/k'',
           tempfile = \<lparr>content = ''Four score'', pos = 0, tf_closed = True,
                        tf_readable = True, tf_writable = True, tf_binary = False\<rparr>\<rparr>,
          store0)"
proof -
  let ?s = "\<lparr>bucket = ''bk'', key = ''k'', mode = ''r'', path = ''bk/k'',
           tempfile = \<lparr>content = ''Four score'', pos = 0, tf_closed = False,
                        tf_readable = True, tf_writable = True, tf_binary = False\<rparr>\<rparr>"
  have o: "opened ?s" by (simp add: model_defs)
  have c: "close ?s store0
       = (None,
          \<lparr>bucket = ''bk'', key = ''k'', mode = ''r'', path = ''bk/k'',
           tempfile = \<lparr>content = ''Four score'', pos = 0, tf_closed = True,
                        tf_readable = True, tf_writable = True, tf_binary = False\<rparr>\<rparr>,
          store0)"
    by (simp add: model_defs)
  have nw: "\<not> writable ?s" by (simp add: writable_def)
  from close_twice [OF o, of store0] show ?thesis
    unfolding c using o c nw by simp
qed

text \<open>
  C3 as the specification words it fails for a stream opened with mode \<open>w\<close>: the first
  \<^verbatim>\<open>close\<close> uploads, the second one raises.
\<close>

theorem second_close_of_writable_raises:
  "S3File_init ''bk'' ''k'' ''w'' store0
     = (Inr \<lparr>bucket = ''bk'', key = ''k'', mode = ''w'', path = ''bk/k'',
              tempfile = \<lparr>content = [], pos = 0, tf_closed = False,
                           tf_readable = True, tf_writable = True, tf_binary = False\<rparr>\<rparr>,
        store0)
   \<and> close \<lparr>bucket = ''bk'', key = ''k'', mode = ''w'', path = ''bk/k'',
              tempfile = \<lparr>content = [], pos = 0, tf_closed = False,
                           tf_readable = True, tf_writable = True, tf_binary = False\<rparr>\<rparr> store0
     = (None,
        \<lparr>bucket = ''bk'', key = ''k'', mode = ''w'', path = ''bk/k'',
              tempfile = \<lparr>content = [], pos = 0, tf_closed = True,
                           tf_readable = True, tf_writable = True, tf_binary = False\<rparr>\<rparr>,
        store0\<lparr>upload_calls := 1, uploaded := [[]]\<rparr>)
   \<and> fst (close \<lparr>bucket = ''bk'', key = ''k'', mode = ''w'', path = ''bk/k'',
              tempfile = \<lparr>content = [], pos = 0, tf_closed = True,
                           tf_readable = True, tf_writable = True, tf_binary = False\<rparr>\<rparr>
              (store0\<lparr>upload_calls := 1, uploaded := [[]]\<rparr>))
     = Some (ValueError closed_file_msg)"
  by (simp add: model_defs)

section \<open>C5: capability guards\<close>

text \<open>
  What holds of the guards: on a stream whose mode is not readable, \<^verbatim>\<open>read\<close>,
  \<^verbatim>\<open>readline\<close> and \<^verbatim>\<open>readlines\<close> raise the not-readable error, and on a stream whose
  mode is not writable, \<^verbatim>\<open>write\<close>, \<^verbatim>\<open>writelines\<close> and \<^verbatim>\<open>truncate\<close> raise the
  not-writable error; the stream is left as it was, so a later \<^verbatim>\<open>close\<close> does what it
  would have done without the failed call.
\<close>

lemma read_guards:
  assumes "\<not> readable self"
  shows "read n self = (Inl (IOError_msg ''not open for reading''), self)"
    and "readline n self = (Inl (IOError_msg ''not open for reading''), self)"
    and "readlines n self = (Inl (IOError_msg ''not open for reading''), self)"
    and "kind_of (IOError_msg ''not open for reading'') = Some NotReadable"
  using assms by (simp_all add: read_def readline_def readlines_def)

lemma write_guards:
  assumes "\<not> writable self"
  shows "write_to d self = (Inl (IOError_msg ''not open for writing''), self)"
    and "writelines ls self = (Inl (IOError_msg ''not open for writing''), self)"
    and "truncate a self = (Inl (IOError_msg ''not open for writing''), self)"
    and "kind_of (IOError_msg ''not open for writing'') = Some NotWritable"
  using assms by (simp_all add: write_to_def writelines_def truncate_def)

text \<open>
  C5 fails for \<^verbatim>\<open>readinto\<close>, which has no guard: a stream opened with mode \<open>wb\<close> is
  not readable, and after a write and a seek to the start \<^verbatim>\<open>readinto\<close> with an array of
  three units returns 3 and the array filled with what was written.
\<close>

theorem readinto_has_no_guard:
  "S3File_init ''bk'' ''k'' ''wb'' store0
     = (Inr \<lparr>bucket = ''bk'', key = ''k'', mode = ''wb'', path = ''bk/k'',
              tempfile = \<lparr>content = [], pos = 0, tf_closed = False,
                           tf_readable = True, tf_writable = True, tf_binary = True\<rparr>\<rparr>,
        store0)
   \<and> \<not> readable \<lparr>bucket = ''bk'', key = ''k'', mode = ''wb'', path = ''bk/k'',
              tempfile = \<lparr>content = [], pos = 0, tf_closed = False,
                           tf_readable = True, tf_writable = True, tf_binary = True\<rparr>\<rparr>
   \<and> fst (readinto ''...'' (snd (seek 0 SEEK_SET (snd (write_to ''abc''
        \<lparr>bucket = ''bk'', key = ''k'', mode = ''wb'', path = ''bk/k'',
              tempfile = \<lparr>content = [], pos = 0, tf_closed = False,
                           tf_readable = True, tf_writable = True, tf_binary = True\<rparr>\<rparr>)))))
     = Inr (3, ''abc'')
   \<and> fst (read (- 1) (snd (seek 0 SEEK_SET (snd (write_to ''abc''
        \<lparr>bucket = ''bk'', key = ''k'', mode = ''wb'', path = ''bk/k'',
              tempfile = \<lparr>content = [], pos = 0, tf_closed = False,
                           tf_readable = True, tf_writable = True, tf_binary = True\<rparr>\<rparr>)))))
     = Inl (IOError_msg ''not open for reading'')"
  by (simp add: model_defs)

section \<open>The constructor, case by case\<close>

lemma recognized_scratch:
  assumes "recognized_mode m"
  shows "\<exists>f. TemporaryFile (updatable_mode m) = Inr f
           \<and> content f = [] \<and> pos f = 0 \<and> \<not> tf_closed f
           \<and> tf_readable f = scratch_readable m
           \<and> tf_writable f = scratch_writable m
           \<and> tf_binary f = (CHR ''b'' \<in> set m)"
proof -
  from assms accepted_iff_recognized [of m] obtain f where
    f: "TemporaryFile (updatable_mode m) = Inr f" by blast
  note t = TemporaryFile_Inr [OF f]
  have mem: "c \<noteq> CHR ''+'' \<Longrightarrow> c \<in> set (updatable_mode m) \<longleftrightarrow> c \<in> set m" for c
    using set_updatable_mode [of m] by blast
  have b: "tf_binary f = (CHR ''b'' \<in> set m)"
    using t mem [of "CHR ''b''"] by simp
  have r: "tf_readable f = scratch_readable m" and w: "tf_writable f = scratch_writable m"
    by (simp_all add: scratch_readable_def scratch_writable_def f)
  from f t b r w show ?thesis by blast
qed

lemma writable_scratch_writable:
  assumes "recognized_mode m"
    and "CHR ''w'' \<in> set m \<or> CHR ''a'' \<in> set m \<or> CHR ''+'' \<in> set m \<or> CHR ''x'' \<in> set m"
  shows "scratch_writable m"
proof -
  from assms(1) accepted_iff_recognized [of m] obtain f where
    f: "TemporaryFile (updatable_mode m) = Inr f" by blast
  note t = TemporaryFile_Inr [OF f]
  have "set m \<subseteq> set (updatable_mode m)" by (rule set_updatable_mode_sup)
  with assms(2) have "CHR ''x'' \<in> set (updatable_mode m) \<or> CHR ''w'' \<in> set (updatable_mode m)
      \<or> CHR ''a'' \<in> set (updatable_mode m) \<or> CHR ''+'' \<in> set (updatable_mode m)"
    by blast
  with t have "tf_writable f" by simp
  then show ?thesis by (simp add: scratch_writable_def f)
qed

text \<open>
  A failed download in a mode whose stream is writable: the handler's \<^verbatim>\<open>close\<close> uploads.
\<close>

lemma init_fault_writable:
  assumes rm: "recognized_mode m" and fm: "fetch_mode m"
    and wr: "CHR ''w'' \<in> set m \<or> CHR ''a'' \<in> set m \<or> CHR ''+'' \<in> set m \<or> CHR ''x'' \<in> set m"
    and dl: "download_reply w = Inl e"
  shows "\<exists>f. TemporaryFile (updatable_mode m) = Inr f \<and>
     S3File_init b k m w =
       (case upload_reply w of
          Some e2 \<Rightarrow>
            (Inl (s3errors (b @ ''/'' @ k) e2,
                  Some \<lparr>bucket = b, key = k, mode = m, path = b @ ''/'' @ k,
                        tempfile = f\<lparr>tf_closed := True\<rparr>\<rparr>),
             w\<lparr>download_calls := download_calls w + 1, upload_calls := upload_calls w + 1\<rparr>)
        | None \<Rightarrow>
            if scratch_readable m
            then (Inl (s3errors (b @ ''/'' @ k) e,
                       Some \<lparr>bucket = b, key = k, mode = m, path = b @ ''/'' @ k,
                             tempfile = f\<lparr>tf_closed := True\<rparr>\<rparr>),
                  w\<lparr>download_calls := download_calls w + 1, upload_calls := upload_calls w + 1,
                    uploaded := uploaded w @ [[]]\<rparr>)
            else (Inl (UnsupportedOperation ''not readable'',
                       Some \<lparr>bucket = b, key = k, mode = m, path = b @ ''/'' @ k,
                             tempfile = f\<lparr>tf_closed := True\<rparr>\<rparr>),
                  w\<lparr>download_calls := download_calls w + 1, upload_calls := upload_calls w + 1\<rparr>))"
proof -
  from recognized_scratch [OF rm] obtain f where
    f: "TemporaryFile (updatable_mode m) = Inr f" and
    c: "content f = []" "pos f = 0" "\<not> tf_closed f" and
    r: "tf_readable f = scratch_readable m"
    by blast
  let ?self = "\<lparr>bucket = b, key = k, mode = m, path = b @ ''/'' @ k, tempfile = f\<rparr>"
  let ?w1 = "w\<lparr>download_calls := download_calls w + 1\<rparr>"
  have o: "\<not> tf_closed (tempfile ?self)" using c by simp
  have ws: "writable ?self" using wr by (simp add: writable_def)
  have f0: "f\<lparr>pos := 0\<rparr> = f" using c(2) by simp
  have fe: "f\<lparr>pos := length (content f)\<rparr> = f" using c(1,2) by simp
  have d: "decoded f (content f) = []" using c(1) by (simp add: decoded_def)
  note i = init_fetch_fault [OF f fm dl, of b k]
  note cl = close_open [OF o, of ?w1]
  show ?thesis
  proof (cases "upload_reply w")
    case (Some e2)
    with cl ws f0 have "close ?self ?w1 =
        (Some (s3errors (b @ ''/'' @ k) e2), ?self\<lparr>tempfile := tf_close f\<rparr>,
         ?w1\<lparr>upload_calls := upload_calls ?w1 + 1\<rparr>)"
      by simp
    with i Some f show ?thesis by (simp add: tf_close_def)
  next
    case None
    show ?thesis
    proof (cases "scratch_readable m")
      case True
      with cl ws fe d r None have "close ?self ?w1 =
          (None, ?self\<lparr>tempfile := tf_close f\<rparr>,
           ?w1\<lparr>upload_calls := upload_calls ?w1 + 1, uploaded := uploaded ?w1 @ [[]]\<rparr>)"
        by simp
      with i None True f show ?thesis by (simp add: tf_close_def)
    next
      case False
      with cl ws f0 r None have "close ?self ?w1 =
          (Some (UnsupportedOperation ''not readable''), ?self\<lparr>tempfile := tf_close f\<rparr>,
           ?w1\<lparr>upload_calls := upload_calls ?w1 + 1\<rparr>)"
        by simp
      with i None False f show ?thesis by (simp add: tf_close_def)
    qed
  qed
qed

section \<open>C9: the cleanup of a failed writable open uploads\<close>

text \<open>
  C9. When the download of the constructor fails in a mode that makes the stream
  writable (the fetching modes with \<open>a\<close> or with \<open>+\<close>), the constructor raises and
  leaves a closed stream, and on the way its handler has called \<^verbatim>\<open>close\<close>, which made
  one upload call with the scratch file as it was, empty. If the store refuses the
  upload, the translated upload error is what the caller gets, in place of the download
  error. If the store accepts it and the scratch file can be read, the empty content
  has been pushed, creating or overwriting the remote object, and the caller gets the
  translated download error. If the scratch file cannot be read (a token such as
  \<open>at\<close>), the upload fails with the scratch file's own error, which replaces the
  download error, and nothing is pushed.
\<close>

theorem failed_writable_open_pushes:
  assumes "recognized_mode m" and "fetch_mode m"
    and "CHR ''w'' \<in> set m \<or> CHR ''a'' \<in> set m \<or> CHR ''+'' \<in> set m \<or> CHR ''x'' \<in> set m"
    and "download_reply w = Inl e"
  shows "\<exists>err s w'. S3File_init b k m w = (Inl (err, Some s), w')
           \<and> is_closed s \<and> mode s = m
           \<and> download_calls w' = download_calls w + 1
           \<and> upload_calls w' = upload_calls w + 1
           \<and> (case upload_reply w of
                 Some e2 \<Rightarrow> err = s3errors (b @ ''/'' @ k) e2 \<and> uploaded w' = uploaded w
               | None \<Rightarrow>
                   if scratch_readable m
                   then err = s3errors (b @ ''/'' @ k) e \<and> uploaded w' = uploaded w @ [[]]
                   else (\<exists>msg. err = UnsupportedOperation msg) \<and> uploaded w' = uploaded w)"
proof -
  from init_fault_writable [OF assms, of b k] obtain f where
    i: "S3File_init b k m w =
       (case upload_reply w of
          Some e2 \<Rightarrow>
            (Inl (s3errors (b @ ''/'' @ k) e2,
                  Some \<lparr>bucket = b, key = k, mode = m, path = b @ ''/'' @ k,
                        tempfile = f\<lparr>tf_closed := True\<rparr>\<rparr>),
             w\<lparr>download_calls := download_calls w + 1, upload_calls := upload_calls w + 1\<rparr>)
        | None \<Rightarrow>
            if scratch_readable m
            then (Inl (s3errors (b @ ''/'' @ k) e,
                       Some \<lparr>bucket = b, key = k, mode = m, path = b @ ''/'' @ k,
                             tempfile = f\<lparr>tf_closed := True\<rparr>\<rparr>),
                  w\<lparr>download_calls := download_calls w + 1, upload_calls := upload_calls w + 1,
                    uploaded := uploaded w @ [[]]\<rparr>)
            else (Inl (UnsupportedOperation ''not readable'',
                       Some \<lparr>bucket = b, key = k, mode = m, path = b @ ''/'' @ k,
                             tempfile = f\<lparr>tf_closed := True\<rparr>\<rparr>),
                  w\<lparr>download_calls := download_calls w + 1, upload_calls := upload_calls w + 1\<rparr>))"
    by blast
  show ?thesis
  proof (cases "upload_reply w")
    case (Some e2)
    with i show ?thesis by (simp add: is_closed_def)
  next
    case None
    with i show ?thesis by (cases "scratch_readable m") (simp_all add: is_closed_def)
  qed
qed

theorem failed_writable_open_pushes_witness:
  "recognized_mode ''a'' \<and> fetch_mode ''a''
   \<and> (CHR ''w'' \<in> set ''a'' \<or> CHR ''a'' \<in> set ''a'' \<or> CHR ''+'' \<in> set ''a''
        \<or> CHR ''x'' \<in> set ''a'')
   \<and> download_reply (store0\<lparr>download_reply := Inl (ClientError None (Some 404))\<rparr>)
       = Inl (ClientError None (Some 404))
   \<and> (\<exists>s w'. S3File_init ''bk'' ''k'' ''a''
                  (store0\<lparr>download_reply := Inl (ClientError None (Some 404))\<rparr>)
                = (Inl (IOError ENOENT (Some ''bk/k''), Some s), w')
             \<and> is_closed s \<and> download_calls w' = 1 \<and> upload_calls w' = 1
             \<and> uploaded w' = [[]])
   \<and> recognized_mode ''r+'' \<and> fetch_mode ''r+''
   \<and> (CHR ''w'' \<in> set ''r+'' \<or> CHR ''a'' \<in> set ''r+'' \<or> CHR ''+'' \<in> set ''r+''
        \<or> CHR ''x'' \<in> set ''r+'')
   \<and> download_reply (store0\<lparr>download_reply := Inl (ClientError None (Some 404)),
                              upload_reply := Some SSLError\<rparr>)
       = Inl (ClientError None (Some 404))
   \<and> (\<exists>s w'. S3File_init ''bk'' ''k'' ''r+''
                  (store0\<lparr>download_reply := Inl (ClientError None (Some 404)),
                          upload_reply := Some SSLError\<rparr>)
                = (Inl (IOError EOPNOTSUPP (Some ''bk/k''), Some s), w')
             \<and> is_closed s \<and> download_calls w' = 1 \<and> upload_calls w' = 1
             \<and> uploaded w' = [])"
proof -
  let ?w = "store0\<lparr>download_reply := Inl (ClientError None (Some 404))\<rparr>"
  let ?v = "store0\<lparr>download_reply := Inl (ClientError None (Some 404)),
                   upload_reply := Some SSLError\<rparr>"
  have a: "recognized_mode ''a''" "fetch_mode ''a''"
    "CHR ''w'' \<in> set ''a'' \<or> CHR ''a'' \<in> set ''a'' \<or> CHR ''+'' \<in> set ''a'' \<or> CHR ''x'' \<in> set ''a''"
    "download_reply ?w = Inl (ClientError None (Some 404))"
    by (simp_all add: recognized_mode_def fetch_mode_def)
  have r: "recognized_mode ''r+''" "fetch_mode ''r+''"
    "CHR ''w'' \<in> set ''r+'' \<or> CHR ''a'' \<in> set ''r+'' \<or> CHR ''+'' \<in> set ''r+'' \<or> CHR ''x'' \<in> set ''r+''"
    "download_reply ?v = Inl (ClientError None (Some 404))"
    by (simp_all add: recognized_mode_def fetch_mode_def)
  have sr: "scratch_readable ''a''"
    by (simp add: scratch_readable_def TemporaryFile_def updatable_mode_def Let_def)
  have u: "upload_reply ?w = None" "uploaded ?w = []" "download_calls ?w = 0" "upload_calls ?w = 0"
    "upload_reply ?v = Some SSLError" "uploaded ?v = []" "download_calls ?v = 0" "upload_calls ?v = 0"
    by (simp_all add: store0_def)
  from failed_writable_open_pushes [OF a, of "''bk''" "''k''"] sr u
  have 1: "\<exists>s w'. S3File_init ''bk'' ''k'' ''a'' ?w
                = (Inl (IOError ENOENT (Some ''bk/k''), Some s), w')
             \<and> is_closed s \<and> download_calls w' = 1 \<and> upload_calls w' = 1
             \<and> uploaded w' = [[]]"
    by (simp add: Let_def) blast
  from failed_writable_open_pushes [OF r, of "''bk''" "''k''"] u
  have 2: "\<exists>s w'. S3File_init ''bk'' ''k'' ''r+'' ?v
                = (Inl (IOError EOPNOTSUPP (Some ''bk/k''), Some s), w')
             \<and> is_closed s \<and> download_calls w' = 1 \<and> upload_calls w' = 1
             \<and> uploaded w' = []"
    by simp blast
  from a r 1 2 show ?thesis by (simp only: simp_thms)
qed

section \<open>C7: a failed construction and a failed close release the scratch file\<close>

text \<open>
  A step of the constructor's \<^verbatim>\<open>try\<close> body fails in a mode whose stream is not
  writable: the download raises, or the scratch file refuses the downloaded content
  (tokens such as \<open>rt\<close>, which the rewrite leaves without \<open>+\<close>). The handler's
  \<^verbatim>\<open>close\<close> uploads nothing, and the error of the step goes to the caller.
\<close>

lemma init_fault_not_writable:
  assumes rm: "recognized_mode m" and fm: "fetch_mode m"
    and nw: "\<not> (CHR ''w'' \<in> set m \<or> CHR ''a'' \<in> set m \<or> CHR ''+'' \<in> set m \<or> CHR ''x'' \<in> set m)"
    and fl: "isl (download_reply w) \<or> \<not> scratch_writable m"
  shows "\<exists>f. TemporaryFile (updatable_mode m) = Inr f \<and>
     S3File_init b k m w =
       (Inl (case download_reply w of
               Inl e \<Rightarrow> s3errors (b @ ''/'' @ k) e
             | Inr body \<Rightarrow> UnsupportedOperation ''not writable'',
             Some \<lparr>bucket = b, key = k, mode = m, path = b @ ''/'' @ k,
                   tempfile = f\<lparr>tf_closed := True\<rparr>\<rparr>),
        w\<lparr>download_calls := download_calls w + 1\<rparr>)"
proof -
  from recognized_scratch [OF rm] obtain f where
    f: "TemporaryFile (updatable_mode m) = Inr f" and
    c: "content f = []" "pos f = 0" "\<not> tf_closed f" and
    wf: "tf_writable f = scratch_writable m"
    by blast
  let ?self = "\<lparr>bucket = b, key = k, mode = m, path = b @ ''/'' @ k, tempfile = f\<rparr>"
  let ?w1 = "w\<lparr>download_calls := download_calls w + 1\<rparr>"
  have ws: "\<not> writable ?self" using nw by (simp add: writable_def)
  have cl: "close ?self ?w1 = (None, ?self\<lparr>tempfile := tf_close f\<rparr>, ?w1)"
    using close_not_writable [OF ws, of ?w1] by simp
  show ?thesis
  proof (cases "download_reply w")
    case (Inl e)
    from init_fetch_fault [OF f fm Inl, of b k] cl Inl f show ?thesis
      by (simp add: tf_close_def)
  next
    case (Inr body)
    with fl wf have "\<not> tf_writable f" by simp
    from init_fetch_unwritable [OF f fm Inr this, of b k] cl Inr f show ?thesis
      by (simp add: tf_close_def)
  qed
qed

text \<open>
  C7, as the code has it. When a step of the constructor fails after the scratch file
  was created (the download raises, or the scratch file refuses the downloaded
  content), the constructor raises and the stream it leaves is closed: the scratch
  file has been released. Which error reaches the caller depends on the mode. In a mode
  whose stream is not writable it is the error of the failed step, translated. In a
  mode whose stream is writable, the handler's \<^verbatim>\<open>close\<close> uploads first: when the store
  refuses that upload, the caller gets the translated upload error and not the error
  of the failed step; when the upload goes through, the caller gets the translated
  download error; when the scratch file cannot be read, the caller gets the scratch
  file's own error. A failure of the store in \<^verbatim>\<open>close\<close> on an open writable stream
  releases the scratch file as well, and \<^verbatim>\<open>close\<close> raises the translated error.
\<close>

theorem failure_releases_the_buffer:
  "(recognized_mode m \<longrightarrow> fetch_mode m \<longrightarrow> (isl (download_reply w) \<or> \<not> scratch_writable m) \<longrightarrow>
      (\<exists>err s w'. S3File_init b k m w = (Inl (err, Some s), w')
         \<and> is_closed s
         \<and> download_calls w' = download_calls w + 1
         \<and> (case download_reply w of
               Inl e \<Rightarrow>
                 if CHR ''w'' \<in> set m \<or> CHR ''a'' \<in> set m \<or> CHR ''+'' \<in> set m \<or> CHR ''x'' \<in> set m
                 then upload_calls w' = upload_calls w + 1
                      \<and> (case upload_reply w of
                            Some e2 \<Rightarrow> err = s3errors (b @ ''/'' @ k) e2
                          | None \<Rightarrow> if scratch_readable m
                                     then err = s3errors (b @ ''/'' @ k) e
                                     else (\<exists>msg. err = UnsupportedOperation msg))
                 else upload_calls w' = upload_calls w \<and> err = s3errors (b @ ''/'' @ k) e
             | Inr body \<Rightarrow>
                 upload_calls w' = upload_calls w \<and> (\<exists>msg. err = UnsupportedOperation msg))))
   \<and> (opened self \<longrightarrow> writable self \<longrightarrow> upload_reply v = Some e2 \<longrightarrow>
        (\<exists>s' v'. close self v = (Some (s3errors (bucket self @ ''/'' @ key self) e2), s', v')
           \<and> is_closed s'
           \<and> upload_calls v' = upload_calls v + 1))"
proof -
  let ?wr = "CHR ''w'' \<in> set m \<or> CHR ''a'' \<in> set m \<or> CHR ''+'' \<in> set m \<or> CHR ''x'' \<in> set m"
  let ?P = "\<lambda>err s w'. S3File_init b k m w = (Inl (err, Some s), w')
         \<and> is_closed s
         \<and> download_calls w' = download_calls w + 1
         \<and> (case download_reply w of
               Inl e \<Rightarrow>
                 if ?wr
                 then upload_calls w' = upload_calls w + 1
                      \<and> (case upload_reply w of
                            Some e2 \<Rightarrow> err = s3errors (b @ ''/'' @ k) e2
                          | None \<Rightarrow> if scratch_readable m
                                     then err = s3errors (b @ ''/'' @ k) e
                                     else (\<exists>msg. err = UnsupportedOperation msg))
                 else upload_calls w' = upload_calls w \<and> err = s3errors (b @ ''/'' @ k) e
             | Inr body \<Rightarrow>
                 upload_calls w' = upload_calls w \<and> (\<exists>msg. err = UnsupportedOperation msg))"
  have init: "\<exists>err s w'. ?P err s w'"
    if rm: "recognized_mode m" and fm: "fetch_mode m"
      and fl: "isl (download_reply w) \<or> \<not> scratch_writable m"
  proof (cases ?wr)
    case True
    from writable_scratch_writable [OF rm True] fl obtain e where dl: "download_reply w = Inl e"
      by (cases "download_reply w") simp_all
    from init_fault_writable [OF rm fm True dl, of b k] obtain f where
      i: "S3File_init b k m w =
       (case upload_reply w of
          Some e2 \<Rightarrow>
            (Inl (s3errors (b @ ''/'' @ k) e2,
                  Some \<lparr>bucket = b, key = k, mode = m, path = b @ ''/'' @ k,
                        tempfile = f\<lparr>tf_closed := True\<rparr>\<rparr>),
             w\<lparr>download_calls := download_calls w + 1, upload_calls := upload_calls w + 1\<rparr>)
        | None \<Rightarrow>
            if scratch_readable m
            then (Inl (s3errors (b @ ''/'' @ k) e,
                       Some \<lparr>bucket = b, key = k, mode = m, path = b @ ''/'' @ k,
                             tempfile = f\<lparr>tf_closed := True\<rparr>\<rparr>),
                  w\<lparr>download_calls := download_calls w + 1, upload_calls := upload_calls w + 1,
                    uploaded := uploaded w @ [[]]\<rparr>)
            else (Inl (UnsupportedOperation ''not readable'',
                       Some \<lparr>bucket = b, key = k, mode = m, path = b @ ''/'' @ k,
                             tempfile = f\<lparr>tf_closed := True\<rparr>\<rparr>),
                  w\<lparr>download_calls := download_calls w + 1, upload_calls := upload_calls w + 1\<rparr>))"
      by blast
    show ?thesis
    proof (cases "upload_reply w")
      case (Some e2)
      with i dl True show ?thesis by (simp add: is_closed_def)
    next
      case None
      with i dl True show ?thesis by (cases "scratch_readable m") (simp_all add: is_closed_def)
    qed
  next
    case False
    from init_fault_not_writable [OF rm fm False fl, of b k] obtain f where
      i: "S3File_init b k m w =
       (Inl (case download_reply w of
               Inl e \<Rightarrow> s3errors (b @ ''/'' @ k) e
             | Inr body \<Rightarrow> UnsupportedOperation ''not writable'',
             Some \<lparr>bucket = b, key = k, mode = m, path = b @ ''/'' @ k,
                   tempfile = f\<lparr>tf_closed := True\<rparr>\<rparr>),
        w\<lparr>download_calls := download_calls w + 1\<rparr>)"
      by blast
    with False show ?thesis
      by (cases "download_reply w") (simp_all add: is_closed_def)
  qed
  have cl: "\<exists>s' v'. close self v = (Some (s3errors (bucket self @ ''/'' @ key self) e2), s', v')
           \<and> is_closed s' \<and> upload_calls v' = upload_calls v + 1"
    if o: "opened self" and wr: "writable self" and u: "upload_reply v = Some e2"
    using close_upload_fault [OF wr opened_not_closed [OF o] u] opened_path [OF o]
    by (simp add: is_closed_def tf_close_def)
  from init cl show ?thesis by blast
qed

theorem failure_releases_the_buffer_witness:
  "recognized_mode ''r'' \<and> fetch_mode ''r''
   \<and> (isl (download_reply (store0\<lparr>download_reply := Inl EndpointConnectionError\<rparr>))
        \<or> \<not> scratch_writable ''r'')
   \<and> (\<exists>s w'. S3File_init ''bk'' ''k'' ''r'' (store0\<lparr>download_reply := Inl EndpointConnectionError\<rparr>)
                = (Inl (IOError ETIMEDOUT (Some ''bk/k''), Some s), w')
             \<and> is_closed s \<and> download_calls w' = 1 \<and> upload_calls w' = 0)
   \<and> opened \<lparr>bucket = ''bk'', key = ''k'', mode = ''wb'', path = ''bk/k'',
               tempfile = \<lparr>content = ''x'', pos = 1, tf_closed = False, tf_readable = True,
                            tf_writable = True, tf_binary = True\<rparr>\<rparr>
   \<and> writable \<lparr>bucket = ''bk'', key = ''k'', mode = ''wb'', path = ''bk/k'',
               tempfile = \<lparr>content = ''x'', pos = 1, tf_closed = False, tf_readable = True,
                            tf_writable = True, tf_binary = True\<rparr>\<rparr>
   \<and> upload_reply (store0\<lparr>upload_reply := Some SSLError\<rparr>) = Some SSLError
   \<and> (\<exists>s' v'. close \<lparr>bucket = ''bk'', key = ''k'', mode = ''wb'', path = ''bk/k'',
               tempfile = \<lparr>content = ''x'', pos = 1, tf_closed = False, tf_readable = True,
                            tf_writable = True, tf_binary = True\<rparr>\<rparr>
               (store0\<lparr>upload_reply := Some SSLError\<rparr>)
             = (Some (IOError EOPNOTSUPP (Some ''bk/k'')), s', v')
           \<and> is_closed s' \<and> upload_calls v' = 1)"
proof -
  let ?w = "store0\<lparr>download_reply := Inl EndpointConnectionError\<rparr>"
  let ?v = "store0\<lparr>upload_reply := Some SSLError\<rparr>"
  let ?s = "\<lparr>bucket = ''bk'', key = ''k'', mode = ''wb'', path = ''bk/k'',
               tempfile = \<lparr>content = ''x'', pos = 1, tf_closed = False, tf_readable = True,
                            tf_writable = True, tf_binary = True\<rparr>\<rparr>"
  have a: "recognized_mode ''r''" "fetch_mode ''r''"
    "isl (download_reply ?w) \<or> \<not> scratch_writable ''r''"
    by (simp_all add: recognized_mode_def fetch_mode_def)
  have o: "opened ?s" by (simp add: model_defs)
  have wr: "writable ?s" by (simp add: writable_def)
  have u: "upload_reply ?v = Some SSLError" by simp
  have n: "download_reply ?w = Inl EndpointConnectionError" "download_calls ?w = 0"
    "upload_calls ?w = 0" "upload_calls ?v = 0"
    by (simp_all add: store0_def)
  note t = failure_releases_the_buffer [of "''r''" ?w "''bk''" "''k''" ?s ?v SSLError]
  from t a n have 1: "\<exists>s w'. S3File_init ''bk'' ''k'' ''r'' ?w
                = (Inl (IOError ETIMEDOUT (Some ''bk/k''), Some s), w')
             \<and> is_closed s \<and> download_calls w' = 1 \<and> upload_calls w' = 0"
    by simp
  from t o wr u n have 2: "\<exists>s' v'. close ?s ?v = (Some (IOError EOPNOTSUPP (Some ''bk/k'')), s', v')
           \<and> is_closed s' \<and> upload_calls v' = 1"
    by simp
  from a o wr u 1 2 show ?thesis by (simp only: simp_thms)
qed

text \<open>
  C7 as the specification words it fails in a writable mode when the store refuses the
  upload of the cleanup as well: with mode \<open>a\<close>, a download answered with status 404
  and an upload that fails in the secure transport, the error that reaches the caller
  is the translated upload error, the "operation not supported" one, and not the
  translation of the failed download, which is the not-found one.
\<close>

theorem cleanup_push_error_replaces_fetch_error:
  "S3File_init ''bk'' ''k'' ''a''
       (store0\<lparr>download_reply := Inl (ClientError None (Some 404)),
               upload_reply := Some SSLError\<rparr>)
     = (Inl (IOError EOPNOTSUPP (Some ''bk/k''),
             Some \<lparr>bucket = ''bk'', key = ''k'', mode = ''a'', path = ''bk/k'',
                   tempfile = \<lparr>content = [], pos = 0, tf_closed = True, tf_readable = True,
                                tf_writable = True, tf_binary = False\<rparr>\<rparr>),
        store0\<lparr>download_reply := Inl (ClientError None (Some 404)),
               upload_reply := Some SSLError, download_calls := 1, upload_calls := 1\<rparr>)
   \<and> s3errors ''bk/k'' (ClientError None (Some 404)) = IOError ENOENT (Some ''bk/k'')
   \<and> kind_of (IOError EOPNOTSUPP (Some ''bk/k'')) = Some Unsupported
   \<and> kind_of (IOError ENOENT (Some ''bk/k'')) = Some NotFound"
  by (simp add: model_defs)

section \<open>The stream that a successful constructor returns\<close>






section \<open>C6: reading what was fetched, and the push of an unchanged stream\<close>


lemma decoded_pos [simp]: "decoded (f\<lparr>pos := p\<rparr>) raw = decoded f raw"
  by (simp add: decoded_def)





end
